theory Spec2Isabelle
  imports Complex_Main "HOL-Library.Multiset"
begin

section \<open>Double-precision values\<close>

text \<open>
  A C++ \<open>double\<close> is NaN, one of the two infinities, or a finite real number.  The two
  signed zeros compare equal and are both \<open>Fin 0\<close>.  Every finite double is a real
  \<open>r\<close> with \<open>\<bar>r\<bar> \<le> dbl_max\<close> that rounding leaves alone (\<open>representable\<close>
  below); the comparison operators are exact on doubles, the arithmetic operators round.
\<close>

datatype dbl = NaN | NInf | Fin real | PInf

fun isnan :: "dbl \<Rightarrow> bool" where
  "isnan NaN = True"
| "isnan _ = False"

text \<open>The C++ operators \<open>a < b\<close>, \<open>a <= b\<close> and \<open>a == b\<close>: false as soon as an operand is NaN.\<close>

fun dlt :: "dbl \<Rightarrow> dbl \<Rightarrow> bool" where
  "dlt NaN _ = False"
| "dlt _ NaN = False"
| "dlt _ NInf = False"
| "dlt NInf _ = True"
| "dlt PInf _ = False"
| "dlt (Fin a) PInf = True"
| "dlt (Fin a) (Fin b) = (a < b)"

fun deq :: "dbl \<Rightarrow> dbl \<Rightarrow> bool" where
  "deq NaN _ = False"
| "deq _ NaN = False"
| "deq a b = (a = b)"

definition dle :: "dbl \<Rightarrow> dbl \<Rightarrow> bool" where
  "dle a b = (dlt a b \<or> deq a b)"

definition dgt :: "dbl \<Rightarrow> dbl \<Rightarrow> bool" where
  "dgt a b = dlt b a"

definition dge :: "dbl \<Rightarrow> dbl \<Rightarrow> bool" where
  "dge a b = dle b a"

text \<open>Unary minus is exact.\<close>

fun dneg :: "dbl \<Rightarrow> dbl" where
  "dneg NaN = NaN"
| "dneg NInf = PInf"
| "dneg PInf = NInf"
| "dneg (Fin a) = Fin (- a)"

text \<open>
  \<open>std::min(a, b)\<close> is \<open>(b < a) ? b : a\<close> and \<open>std::max(a, b)\<close> is \<open>(a < b) ? b : a\<close>:
  with a NaN operand the comparison is false and the first argument comes back.
\<close>

definition std_min :: "dbl \<Rightarrow> dbl \<Rightarrow> dbl" where
  "std_min a b = (if dlt b a then b else a)"

definition std_max :: "dbl \<Rightarrow> dbl \<Rightarrow> dbl" where
  "std_max a b = (if dlt a b then b else a)"

text \<open>\<open>std::numeric_limits<double>::max()\<close>, the largest finite double, \<open>2 ^ 1024 - 2 ^ 971\<close>.\<close>

definition dbl_max :: real where
  "dbl_max = 2 ^ 1024 - 2 ^ 971"

definition DBL_MAX :: dbl where
  "DBL_MAX = Fin dbl_max"

subsection \<open>Arithmetic\<close>

text \<open>
  IEEE 754 binary64 arithmetic in the default rounding mode: the exact result is rounded
  to the nearest double, a tie to the one with an even significand.  \<open>rne\<close> rounds a
  real to the nearest integer, ties to even; \<open>round64\<close> scales by the unit in the last
  place of the binade of \<open>x\<close> (the exponent is at least \<open>-1022\<close>: below lie the
  subnormals, all on one grid) and overflows to an infinity past \<open>dbl_max\<close>.
\<close>

definition rne :: "real \<Rightarrow> int" where
  "rne y = (let f = \<lfloor>y\<rfloor>; d = y - of_int f
            in if d < 1 / 2 then f else if 1 / 2 < d then f + 1
               else if even f then f else f + 1)"

definition round64 :: "real \<Rightarrow> dbl" where
  "round64 x =
     (if x = 0 then Fin 0
      else let e = max \<lfloor>log 2 \<bar>x\<bar>\<rfloor> (- 1022) - 52;
               r = of_int (rne (x / 2 powi e)) * 2 powi e
           in if dbl_max < \<bar>r\<bar> then (if 0 < x then PInf else NInf) else Fin r)"

text \<open>A real that is a double: rounding returns it unchanged.\<close>

definition representable :: "real \<Rightarrow> bool" where
  "representable r = (round64 r = Fin r)"

text \<open>The C++ operators \<open>a + b\<close>, \<open>a - b\<close> and \<open>a * b\<close> on doubles.\<close>

fun dadd :: "dbl \<Rightarrow> dbl \<Rightarrow> dbl" where
  "dadd NaN _ = NaN"
| "dadd _ NaN = NaN"
| "dadd (Fin a) (Fin b) = round64 (a + b)"
| "dadd (Fin a) i = i"
| "dadd i (Fin b) = i"
| "dadd i j = (if i = j then i else NaN)"

definition dsub :: "dbl \<Rightarrow> dbl \<Rightarrow> dbl" where
  "dsub a b = dadd a (dneg b)"

fun dmul :: "dbl \<Rightarrow> dbl \<Rightarrow> dbl" where
  "dmul NaN _ = NaN"
| "dmul _ NaN = NaN"
| "dmul (Fin a) (Fin b) = round64 (a * b)"
| "dmul (Fin a) i = (if a = 0 then NaN else if 0 < a then i else dneg i)"
| "dmul i (Fin b) = (if b = 0 then NaN else if 0 < b then i else dneg i)"
| "dmul i j = (if i = j then PInf else NInf)"



section \<open>The 2D rectangle collaborator\<close>

text \<open>
  Modelled from the spec: the class QgsRectangle, which QgsBox3D owns by value in
  \<open>mBounds2d\<close>, is not part of the sources at hand.  It carries the four bounds that
  \<open>xMinimum()\<close>, \<open>yMinimum()\<close>, \<open>xMaximum()\<close> and \<open>yMaximum()\<close> read and that
  \<open>setXMinimum\<close> ... \<open>setYMaximum\<close> write, without enforcing any ordering.
\<close>

record rect =
  xMinimum :: dbl
  yMinimum :: dbl
  xMaximum :: dbl
  yMaximum :: dbl

text \<open>
  Modelled from the spec: QgsRectangle::setMinimal, the "set to inverted-extreme"
  operation: both minima become \<open>+DBL_MAX\<close>, both maxima \<open>-DBL_MAX\<close>.
\<close>

definition rect_setMinimal :: "rect \<Rightarrow> rect" where
  "rect_setMinimal r =
     r\<lparr>xMinimum := DBL_MAX, yMinimum := DBL_MAX,
       xMaximum := dneg DBL_MAX, yMaximum := dneg DBL_MAX\<rparr>"

text \<open>
  Modelled from the spec: QgsRectangle::normalize, which swaps minimum and maximum on an
  axis where the minimum is greater than the maximum, on x and on y independently.
\<close>

definition rect_normalize :: "rect \<Rightarrow> rect" where
  "rect_normalize r =
     (let r1 = (if dgt (xMinimum r) (xMaximum r)
                then r\<lparr>xMinimum := xMaximum r, xMaximum := xMinimum r\<rparr> else r)
      in if dgt (yMinimum r1) (yMaximum r1)
         then r1\<lparr>yMinimum := yMaximum r1, yMaximum := yMinimum r1\<rparr> else r1)"

text \<open>
  Modelled from the spec: QgsRectangle::combineExtentWith(x, y), the 2D union with a
  point: each minimum becomes the smaller of itself and the coordinate, each maximum the
  larger.
\<close>

definition rect_combineExtentWith :: "dbl \<Rightarrow> dbl \<Rightarrow> rect \<Rightarrow> rect" where
  "rect_combineExtentWith x y r =
     r\<lparr>xMinimum := std_min (xMinimum r) x, yMinimum := std_min (yMinimum r) y,
       xMaximum := std_max (xMaximum r) x, yMaximum := std_max (yMaximum r) y\<rparr>"

text \<open>
  What the sources at hand use and neither they nor the specification define is taken as
  a parameter: the tolerance comparison \<open>qgsDoubleNear\<close>; the rectangle's \<open>intersects\<close>,
  \<open>intersect\<close> and \<open>isEmpty\<close> (the "opaque collaborator" of the specification); the
  default value of the constructor's \<open>normalize\<close> flag, which the header declares; two
  library computations of \<open>toString\<close>:
  \<open>static_cast<int>(std::ceil(-1.0 * std::log10(x)))\<close> as \<open>ceil_neg_log10\<close>, and Qt's
  rendering \<open>QString::arg(x, 0, 'f', precision)\<close> of a double in fixed notation as
  \<open>arg_f\<close>; and the library's \<open>std::hypot\<close> of two and of three doubles, whose rounding
  the C++ standard leaves open, as \<open>hypot2\<close> and \<open>hypot3\<close>.
\<close>

record collab =
  qgsDoubleNear :: "dbl \<Rightarrow> dbl \<Rightarrow> bool"
  rect_intersects :: "rect \<Rightarrow> rect \<Rightarrow> bool"
  rect_intersect :: "rect \<Rightarrow> rect \<Rightarrow> rect"
  rect_isEmpty :: "rect \<Rightarrow> bool"
  normalize_default :: bool
  ceil_neg_log10 :: "dbl \<Rightarrow> int"
  arg_f :: "dbl \<Rightarrow> int \<Rightarrow> string"
  hypot2 :: "dbl \<Rightarrow> dbl \<Rightarrow> dbl"
  hypot3 :: "dbl \<Rightarrow> dbl \<Rightarrow> dbl \<Rightarrow> dbl"

text \<open>
  Modelled from the spec: one collaborator to run the code with.  Two rectangles intersect
  when their ranges overlap on x and on y, their intersection takes the larger minimum
  and the smaller maximum on each axis (as the specification words it for z), a
  rectangle is empty when it has no positive extent on x or on y, and two doubles are
  near each other when they are equal (a tolerance of zero).
\<close>

definition rect_overlap :: "rect \<Rightarrow> rect \<Rightarrow> bool" where
  "rect_overlap r s =
     (dle (std_max (xMinimum r) (xMinimum s)) (std_min (xMaximum r) (xMaximum s))
      \<and> dle (std_max (yMinimum r) (yMinimum s)) (std_min (yMaximum r) (yMaximum s)))"

definition rect_meet :: "rect \<Rightarrow> rect \<Rightarrow> rect" where
  "rect_meet r s =
     \<lparr>xMinimum = std_max (xMinimum r) (xMinimum s),
      yMinimum = std_max (yMinimum r) (yMinimum s),
      xMaximum = std_min (xMaximum r) (xMaximum s),
      yMaximum = std_min (yMaximum r) (yMaximum s)\<rparr>"

definition rect_flat :: "rect \<Rightarrow> bool" where
  "rect_flat r = (dle (xMaximum r) (xMinimum r) \<or> dle (yMaximum r) (yMinimum r))"

text \<open>
  The two library computations of the sample collaborator: the number of decimal digits
  from the exact logarithm, and fixed notation with \<open>precision\<close> digits after the point
  (the value times \<open>10 ^ precision\<close> rounded to an integer, ties to even).
\<close>

definition exact_ceil_neg_log10 :: "dbl \<Rightarrow> int" where
  "exact_ceil_neg_log10 x = (case x of Fin r \<Rightarrow> \<lceil>- log 10 r\<rceil> | _ \<Rightarrow> 0)"

definition digit :: "nat \<Rightarrow> char" where
  "digit n = ''0123456789'' ! (n mod 10)"

fun decimal :: "nat \<Rightarrow> nat \<Rightarrow> string" where
  "decimal 0 n = []"
| "decimal (Suc k) n = (if n < 10 then [digit n] else decimal k (n div 10) @ [digit n])"

fun fraction :: "nat \<Rightarrow> nat \<Rightarrow> string" where
  "fraction 0 n = []"
| "fraction (Suc p) n = fraction p (n div 10) @ [digit n]"

definition fixed_f :: "dbl \<Rightarrow> int \<Rightarrow> string" where
  "fixed_f x precision =
     (case x of
        NaN \<Rightarrow> ''nan''
      | PInf \<Rightarrow> ''inf''
      | NInf \<Rightarrow> ''-inf''
      | Fin r \<Rightarrow>
          (let p = nat precision;
               n = nat (rne (\<bar>r\<bar> * 10 ^ p));
               whole = n div 10 ^ p
           in (if r < 0 then ''-'' else [])
              @ decimal (Suc whole) whole
              @ (if p = 0 then [] else ''.'' @ fraction p (n mod 10 ^ p))))"

text \<open>
  The \<open>hypot\<close> of the sample collaborator is the best a library can do: infinite when
  an argument is infinite, NaN when one is NaN and none is infinite, and otherwise the
  square root of the sum of the squares, rounded once.
\<close>

fun is_inf :: "dbl \<Rightarrow> bool" where
  "is_inf PInf = True"
| "is_inf NInf = True"
| "is_inf _ = False"

definition rounded_hypot2 :: "dbl \<Rightarrow> dbl \<Rightarrow> dbl" where
  "rounded_hypot2 x y =
     (if is_inf x \<or> is_inf y then PInf
      else case (x, y) of
             (Fin a, Fin b) \<Rightarrow> round64 (sqrt (a * a + b * b))
           | _ \<Rightarrow> NaN)"

definition rounded_hypot3 :: "dbl \<Rightarrow> dbl \<Rightarrow> dbl \<Rightarrow> dbl" where
  "rounded_hypot3 x y z =
     (if is_inf x \<or> is_inf y \<or> is_inf z then PInf
      else case (x, y, z) of
             (Fin a, Fin b, Fin c) \<Rightarrow> round64 (sqrt (a * a + b * b + c * c))
           | _ \<Rightarrow> NaN)"

definition plain_collab :: "bool \<Rightarrow> collab" where
  "plain_collab nrm =
     \<lparr>qgsDoubleNear = deq, rect_intersects = rect_overlap, rect_intersect = rect_meet,
      rect_isEmpty = rect_flat, normalize_default = nrm,
      ceil_neg_log10 = exact_ceil_neg_log10, arg_f = fixed_f,
      hypot2 = rounded_hypot2, hypot3 = rounded_hypot3\<rparr>"


section \<open>QgsBox3D\<close>

record box3d =
  mBounds2d :: rect
  mZmin :: dbl
  mZmax :: dbl

text \<open>
  A mutating method takes the receiver and returns it updated; a \<open>const\<close> method takes
  the receiver and returns its result.
\<close>

definition setXMinimum :: "dbl \<Rightarrow> box3d \<Rightarrow> box3d" where
  "setXMinimum x b = b\<lparr>mBounds2d := (mBounds2d b)\<lparr>xMinimum := x\<rparr>\<rparr>"

definition setXMaximum :: "dbl \<Rightarrow> box3d \<Rightarrow> box3d" where
  "setXMaximum x b = b\<lparr>mBounds2d := (mBounds2d b)\<lparr>xMaximum := x\<rparr>\<rparr>"

definition setYMinimum :: "dbl \<Rightarrow> box3d \<Rightarrow> box3d" where
  "setYMinimum y b = b\<lparr>mBounds2d := (mBounds2d b)\<lparr>yMinimum := y\<rparr>\<rparr>"

definition setYMaximum :: "dbl \<Rightarrow> box3d \<Rightarrow> box3d" where
  "setYMaximum y b = b\<lparr>mBounds2d := (mBounds2d b)\<lparr>yMaximum := y\<rparr>\<rparr>"

definition setZMinimum :: "dbl \<Rightarrow> box3d \<Rightarrow> box3d" where
  "setZMinimum z b = b\<lparr>mZmin := z\<rparr>"

definition setZMaximum :: "dbl \<Rightarrow> box3d \<Rightarrow> box3d" where
  "setZMaximum z b = b\<lparr>mZmax := z\<rparr>"

definition setMinimal :: "box3d \<Rightarrow> box3d" where
  "setMinimal b =
     b\<lparr>mBounds2d := rect_setMinimal (mBounds2d b),
       mZmin := DBL_MAX,
       mZmax := dneg DBL_MAX\<rparr>"

definition normalize :: "box3d \<Rightarrow> box3d" where
  "normalize b =
     (let minTmp = std_min (mZmin b) (mZmax b)
      in b\<lparr>mBounds2d := rect_normalize (mBounds2d b),
           mZmax := std_max (mZmin b) (mZmax b),
           mZmin := minTmp\<rparr>)"

text \<open>
  The constructor from six scalars: the rectangle is built with its own \<open>normalize\<close>
  flag off, and the box is normalized when the flag of the box is on.
\<close>

definition QgsBox3D :: "dbl \<Rightarrow> dbl \<Rightarrow> dbl \<Rightarrow> dbl \<Rightarrow> dbl \<Rightarrow> dbl \<Rightarrow> bool \<Rightarrow> box3d" where
  "QgsBox3D xmin ymin zmin xmax ymax zmax nrm =
     (let b = \<lparr>mBounds2d = \<lparr>xMinimum = xmin, yMinimum = ymin,
                              xMaximum = xmax, yMaximum = ymax\<rparr>,
                 mZmin = zmin, mZmax = zmax\<rparr>
      in if nrm then normalize b else b)"

text \<open>\<open>intersect\<close> builds its result with the constructor's default flag.\<close>

definition intersect :: "collab \<Rightarrow> box3d \<Rightarrow> box3d \<Rightarrow> box3d" where
  "intersect env b other =
     (let intersect2d = rect_intersect env (mBounds2d b) (mBounds2d other);
          zMin = std_max (mZmin b) (mZmin other);
          zMax = std_min (mZmax b) (mZmax other)
      in QgsBox3D (xMinimum intersect2d) (yMinimum intersect2d) zMin
                  (xMaximum intersect2d) (yMaximum intersect2d) zMax
                  (normalize_default env))"

definition is2d :: "collab \<Rightarrow> box3d \<Rightarrow> bool" where
  "is2d env b =
     (qgsDoubleNear env (mZmin b) (mZmax b) \<or> dgt (mZmin b) (mZmax b)
      \<or> isnan (mZmin b) \<or> isnan (mZmax b))"

definition intersects :: "collab \<Rightarrow> box3d \<Rightarrow> box3d \<Rightarrow> bool" where
  "intersects env b other =
     (if \<not> rect_intersects env (mBounds2d b) (mBounds2d other) then False
      else if is2d env other \<or> is2d env b then True
      else
        let z1 = (if dgt (mZmin b) (mZmin other) then mZmin b else mZmin other);
            z2 = (if dlt (mZmax b) (mZmax other) then mZmax b else mZmax other)
        in dle z1 z2)"

text \<open>
  \<open>distanceTo(point)\<close>.  The point is a \<open>QVector3D\<close>, whose three coordinates are
  floats; each is a double, and is passed here as one.
\<close>

definition distanceTo :: "collab \<Rightarrow> dbl \<Rightarrow> dbl \<Rightarrow> dbl \<Rightarrow> box3d \<Rightarrow> dbl" where
  "distanceTo env x y z b =
     (let dx = std_max (dsub (xMinimum (mBounds2d b)) x)
                       (std_max (Fin 0) (dsub x (xMaximum (mBounds2d b))));
          dy = std_max (dsub (yMinimum (mBounds2d b)) y)
                       (std_max (Fin 0) (dsub y (yMaximum (mBounds2d b))))
      in if is2d env b \<or> isnan z then hypot2 env dx dy
         else
           let dz = std_max (dsub (mZmin b) z) (std_max (Fin 0) (dsub z (mZmax b)))
           in hypot3 env dx dy dz)"

text \<open>
  The gap on one axis, between the bounds \<open>lo\<close> and \<open>hi\<close> and the coordinate \<open>c\<close>: as
  the code computes it, and in the words of the specification,
  \<open>max(0, max(lowerBound - coord, coord - upperBound))\<close>.
\<close>

definition axis_gap :: "dbl \<Rightarrow> dbl \<Rightarrow> dbl \<Rightarrow> dbl" where
  "axis_gap lo hi c = std_max (dsub lo c) (std_max (Fin 0) (dsub c hi))"

definition spec_gap :: "dbl \<Rightarrow> dbl \<Rightarrow> dbl \<Rightarrow> dbl" where
  "spec_gap lo hi c = std_max (Fin 0) (std_max (dsub lo c) (dsub c hi))"

text \<open>\<open>combineWith(x, y, z)\<close>, the overload that takes a point.\<close>

definition combineWith :: "dbl \<Rightarrow> dbl \<Rightarrow> dbl \<Rightarrow> box3d \<Rightarrow> box3d" where
  "combineWith x y z b =
     b\<lparr>mBounds2d := rect_combineExtentWith x y (mBounds2d b),
       mZmin := std_min (mZmin b) z,
       mZmax := std_max (mZmax b) z\<rparr>"

text \<open>
  \<open>scale(scaleFactor, centerX, centerY, centerZ)\<close>: six setter calls in the order of
  the source, each reading the receiver as the calls before it left it.
\<close>

definition scale :: "dbl \<Rightarrow> dbl \<Rightarrow> dbl \<Rightarrow> dbl \<Rightarrow> box3d \<Rightarrow> box3d" where
  "scale scaleFactor centerX centerY centerZ b =
     (let b1 = setXMinimum
                 (dadd centerX (dmul (dsub (xMinimum (mBounds2d b)) centerX) scaleFactor)) b;
          b2 = setXMaximum
                 (dadd centerX (dmul (dsub (xMaximum (mBounds2d b1)) centerX) scaleFactor)) b1;
          b3 = setYMinimum
                 (dadd centerY (dmul (dsub (yMinimum (mBounds2d b2)) centerY) scaleFactor)) b2;
          b4 = setYMaximum
                 (dadd centerY (dmul (dsub (yMaximum (mBounds2d b3)) centerY) scaleFactor)) b3;
          b5 = setZMinimum (dadd centerZ (dmul (dsub (mZmin b4) centerZ) scaleFactor)) b4
      in setZMaximum (dadd centerZ (dmul (dsub (mZmax b5) centerZ) scaleFactor)) b5)"

text \<open>
  The hypotheses under which scaling is exact, for a center coordinate \<open>c\<close> and a bound
  \<open>b\<close> of its axis.  \<open>exact_about c b\<close>: the center coordinate is finite, and the bound
  is NaN, infinite, or a double whose difference \<open>b - c\<close> is computed without rounding.
  \<open>finite_about c b\<close>: both are finite, the center coordinate is a double, and the
  difference \<open>b - c\<close> does not overflow.
\<close>

fun is_fin :: "dbl \<Rightarrow> bool" where
  "is_fin (Fin r) = True"
| "is_fin _ = False"

fun exact_about :: "dbl \<Rightarrow> dbl \<Rightarrow> bool" where
  "exact_about (Fin c) (Fin b) = (representable b \<and> representable (b - c))"
| "exact_about (Fin c) b = True"
| "exact_about c b = False"

fun finite_about :: "dbl \<Rightarrow> dbl \<Rightarrow> bool" where
  "finite_about (Fin c) (Fin b) = (representable c \<and> is_fin (round64 (b - c)))"
| "finite_about c b = False"

definition isNull :: "box3d \<Rightarrow> bool" where
  "isNull b =
     ((isnan (xMinimum (mBounds2d b)) \<and> isnan (xMaximum (mBounds2d b))
        \<and> isnan (yMinimum (mBounds2d b)) \<and> isnan (xMaximum (mBounds2d b))
        \<and> isnan (mZmin b) \<and> isnan (mZmax b))
      \<or>
      (deq (xMinimum (mBounds2d b)) DBL_MAX \<and> deq (yMinimum (mBounds2d b)) DBL_MAX
        \<and> deq (mZmin b) DBL_MAX
        \<and> deq (xMaximum (mBounds2d b)) (dneg DBL_MAX)
        \<and> deq (yMaximum (mBounds2d b)) (dneg DBL_MAX)
        \<and> deq (mZmax b) (dneg DBL_MAX)))"

text \<open>
  The null state in the words of the specification: every one of the six bounds is NaN,
  or every minimum is \<open>+DBL_MAX\<close> and every maximum is \<open>-DBL_MAX\<close>.
\<close>

definition spec_null :: "box3d \<Rightarrow> bool" where
  "spec_null b =
     ((isnan (xMinimum (mBounds2d b)) \<and> isnan (xMaximum (mBounds2d b))
        \<and> isnan (yMinimum (mBounds2d b)) \<and> isnan (yMaximum (mBounds2d b))
        \<and> isnan (mZmin b) \<and> isnan (mZmax b))
      \<or>
      (xMinimum (mBounds2d b) = DBL_MAX \<and> yMinimum (mBounds2d b) = DBL_MAX
        \<and> mZmin b = DBL_MAX
        \<and> xMaximum (mBounds2d b) = dneg DBL_MAX
        \<and> yMaximum (mBounds2d b) = dneg DBL_MAX
        \<and> mZmax b = dneg DBL_MAX))"

definition isEmpty :: "collab \<Rightarrow> box3d \<Rightarrow> bool" where
  "isEmpty env b =
     (dlt (mZmax b) (mZmin b) \<or> qgsDoubleNear env (mZmax b) (mZmin b)
      \<or> rect_isEmpty env (mBounds2d b))"

text \<open>
  Modelled from the spec: \<open>width()\<close> and \<open>height()\<close>, which the header declares, are the
  extents of the box on x and on y.
\<close>

definition width :: "box3d \<Rightarrow> dbl" where
  "width b = dsub (xMaximum (mBounds2d b)) (xMinimum (mBounds2d b))"

definition height :: "box3d \<Rightarrow> dbl" where
  "height b = dsub (yMaximum (mBounds2d b)) (yMinimum (mBounds2d b))"

text \<open>
  \<open>toString(precision)\<close>.  Its first block replaces a negative \<open>precision\<close>; the value of
  the variable after that block is \<open>toString_precision\<close>.  The six \<open>arg\<close> calls fill the
  markers of \<open>"%1,%2,%3 : %4,%5,%6"\<close> in order.  The debug message is not modelled.  The
  C++ \<open>int\<close> is an integer here: the only arithmetic on it is one \<open>+ 1\<close>.
\<close>

definition toString_precision :: "collab \<Rightarrow> int \<Rightarrow> box3d \<Rightarrow> int" where
  "toString_precision env precision b =
     (if precision < 0
      then
        if (dlt (width b) (Fin 10) \<or> dlt (height b) (Fin 10))
           \<and> (dgt (width b) (Fin 0) \<and> dgt (height b) (Fin 0))
        then
          let precision1 = ceil_neg_log10 env (std_min (width b) (height b)) + 1
          in if precision1 > 20 then 20 else precision1
        else 0
      else precision)"

definition toString :: "collab \<Rightarrow> int \<Rightarrow> box3d \<Rightarrow> string" where
  "toString env precision b =
     (let precision1 = toString_precision env precision b
      in if isNull b then ''Null''
         else if isEmpty env b then ''Empty''
         else arg_f env (xMinimum (mBounds2d b)) precision1 @ '','' @
              arg_f env (yMinimum (mBounds2d b)) precision1 @ '','' @
              arg_f env (mZmin b) precision1 @ '' : '' @
              arg_f env (xMaximum (mBounds2d b)) precision1 @ '','' @
              arg_f env (yMaximum (mBounds2d b)) precision1 @ '','' @
              arg_f env (mZmax b) precision1)"

text \<open>
  The same in the words of the specification: the text \<open>"xmin,ymin,zmin : xmax,ymax,zmax"\<close>
  with each bound rendered by \<open>f\<close> at precision \<open>p\<close>, and the adaptive precision derived
  from the smaller \<open>m\<close> of width and height: none for a box of size 10 or more (or of no
  positive size), and for a smaller box one digit more than the order of magnitude of
  \<open>m\<close> asks for, at most 20.
\<close>

definition spec_render :: "(dbl \<Rightarrow> int \<Rightarrow> string) \<Rightarrow> int \<Rightarrow> box3d \<Rightarrow> string" where
  "spec_render f p b =
     f (xMinimum (mBounds2d b)) p @ '','' @ f (yMinimum (mBounds2d b)) p @ '','' @
     f (mZmin b) p @ '' : '' @
     f (xMaximum (mBounds2d b)) p @ '','' @ f (yMaximum (mBounds2d b)) p @ '','' @
     f (mZmax b) p"

definition spec_adaptive :: "collab \<Rightarrow> dbl \<Rightarrow> int" where
  "spec_adaptive env m =
     (if dlt (Fin 0) m \<and> dlt m (Fin 10) then min 20 (ceil_neg_log10 env m + 1) else 0)"


section \<open>Callers\<close>

text \<open>
  Accumulating a bounding box: the caller resets a box with \<open>setMinimal()\<close> and calls
  \<open>combineWith(x, y, z)\<close> once for each point of a sequence, in order.
\<close>

fun combineAll :: "box3d \<Rightarrow> (real \<times> real \<times> real) list \<Rightarrow> box3d" where
  "combineAll b [] = b"
| "combineAll b ((x, y, z) # ps) = combineAll (combineWith (Fin x) (Fin y) (Fin z) b) ps"

text \<open>A point with real coordinates, and its three projections.\<close>

fun px :: "real \<times> real \<times> real \<Rightarrow> real" where
  "px (x, y, z) = x"

fun py :: "real \<times> real \<times> real \<Rightarrow> real" where
  "py (x, y, z) = y"

fun pz :: "real \<times> real \<times> real \<Rightarrow> real" where
  "pz (x, y, z) = z"

text \<open>Finite coordinates: every finite double lies between \<open>-DBL_MAX\<close> and \<open>+DBL_MAX\<close>.\<close>

definition finite_point :: "real \<times> real \<times> real \<Rightarrow> bool" where
  "finite_point p = (\<bar>px p\<bar> \<le> dbl_max \<and> \<bar>py p\<bar> \<le> dbl_max \<and> \<bar>pz p\<bar> \<le> dbl_max)"

text \<open>
  The exact axis-aligned bounding box of a sequence of points, in the words of the
  specification: the coordinate-wise minima and maxima.
\<close>

definition bounding_box :: "(real \<times> real \<times> real) list \<Rightarrow> box3d" where
  "bounding_box ps =
     \<lparr>mBounds2d = \<lparr>xMinimum = Fin (Min (px ` set ps)), yMinimum = Fin (Min (py ` set ps)),
                   xMaximum = Fin (Max (px ` set ps)), yMaximum = Fin (Max (py ` set ps))\<rparr>,
      mZmin = Fin (Min (pz ` set ps)), mZmax = Fin (Max (pz ` set ps))\<rparr>"

text \<open>
  Objects live at addresses; the addresses below \<open>top\<close> hold the objects built so far.
  A method runs on the heap: it reads the members of the objects at the addresses it is
  given, and every assignment to a member is a write at the address of its object.
  \<open>normalize()\<close> assigns to the members of its receiver.  The constructor builds a new
  object at the first free address and, when its flag is set, calls \<open>normalize()\<close> on
  that object.  The body of \<open>intersect(other)\<close> reads the receiver and \<open>other\<close> into
  three locals and returns the object its constructor call builds.
\<close>

record heap =
  objs :: "nat \<Rightarrow> box3d"
  top :: nat

definition normalize_at :: "nat \<Rightarrow> heap \<Rightarrow> heap" where
  "normalize_at this h =
     (let minTmp = std_min (mZmin (objs h this)) (mZmax (objs h this));
          h1 = h\<lparr>objs := (objs h)(this := (objs h this)
                  \<lparr>mBounds2d := rect_normalize (mBounds2d (objs h this))\<rparr>)\<rparr>;
          h2 = h1\<lparr>objs := (objs h1)(this := (objs h1 this)
                  \<lparr>mZmax := std_max (mZmin (objs h1 this)) (mZmax (objs h1 this))\<rparr>)\<rparr>
      in h2\<lparr>objs := (objs h2)(this := (objs h2 this)\<lparr>mZmin := minTmp\<rparr>)\<rparr>)"

definition construct_at ::
    "dbl \<Rightarrow> dbl \<Rightarrow> dbl \<Rightarrow> dbl \<Rightarrow> dbl \<Rightarrow> dbl \<Rightarrow> bool \<Rightarrow> heap \<Rightarrow> nat \<times> heap" where
  "construct_at xmin ymin zmin xmax ymax zmax nrm h =
     (let this = top h;
          h1 = h\<lparr>objs := (objs h)(this :=
                   \<lparr>mBounds2d = \<lparr>xMinimum = xmin, yMinimum = ymin,
                                  xMaximum = xmax, yMaximum = ymax\<rparr>,
                    mZmin = zmin, mZmax = zmax\<rparr>),
                 top := Suc this\<rparr>
      in (this, if nrm then normalize_at this h1 else h1))"

definition intersect_at :: "collab \<Rightarrow> nat \<Rightarrow> nat \<Rightarrow> heap \<Rightarrow> nat \<times> heap" where
  "intersect_at env this other h =
     (let intersect2d = rect_intersect env (mBounds2d (objs h this)) (mBounds2d (objs h other));
          zMin = std_max (mZmin (objs h this)) (mZmin (objs h other));
          zMax = std_min (mZmax (objs h this)) (mZmax (objs h other))
      in construct_at (xMinimum intersect2d) (yMinimum intersect2d) zMin
                      (xMaximum intersect2d) (yMaximum intersect2d) zMax
                      (normalize_default env) h)"


section \<open>Facts about doubles\<close>

lemma dbl_max_gt: "4 < dbl_max"
proof -
  have "(2::real) ^ 971 * 2 \<le> 2 ^ 971 * 2 ^ 53"
    by (intro mult_left_mono) simp_all
  moreover have "(2::real) ^ 1024 = 2 ^ 971 * 2 ^ 53"
    by (simp flip: power_add)
  moreover have "(8::real) \<le> 2 ^ 971"
    using power_increasing [of 3 971 "2::real"] by simp
  ultimately show ?thesis
    unfolding dbl_max_def by linarith
qed

lemma dbl_max_pos: "0 < dbl_max"
  using dbl_max_gt by simp

lemma dbl_max_ge_2_60: "2 ^ 60 \<le> dbl_max"
proof -
  have "(2::real) ^ 60 \<le> 2 ^ 971"
    by (rule power_increasing) simp_all
  moreover have "(2::real) ^ 971 * 2 \<le> 2 ^ 971 * 2 ^ 53"
    by (intro mult_left_mono) simp_all
  moreover have "(2::real) ^ 1024 = 2 ^ 971 * 2 ^ 53"
    by (simp flip: power_add)
  ultimately show ?thesis
    unfolding dbl_max_def by linarith
qed

lemma deq_DBL_MAX [simp]: "deq a DBL_MAX \<longleftrightarrow> a = DBL_MAX"
  by (cases a) (auto simp: DBL_MAX_def)

lemma deq_neg_DBL_MAX [simp]: "deq a (dneg DBL_MAX) \<longleftrightarrow> a = dneg DBL_MAX"
  by (cases a) (auto simp: DBL_MAX_def)

lemma isnan_iff: "isnan a \<longleftrightarrow> a = NaN"
  by (cases a) simp_all

lemma dlt_asym: "dlt a b \<Longrightarrow> \<not> dlt b a"
  by (cases a; cases b) auto

lemma std_min_Fin [simp]: "std_min (Fin a) (Fin b) = Fin (min a b)"
  by (auto simp: std_min_def)

lemma std_max_Fin [simp]: "std_max (Fin a) (Fin b) = Fin (max a b)"
  by (auto simp: std_max_def)

lemma std_min_commute: "\<not> isnan a \<Longrightarrow> \<not> isnan b \<Longrightarrow> std_min a b = std_min b a"
  by (cases a; cases b) (auto simp: std_min_def)

lemma std_max_commute: "\<not> isnan a \<Longrightarrow> \<not> isnan b \<Longrightarrow> std_max a b = std_max b a"
  by (cases a; cases b) (auto simp: std_max_def)

lemma std_min_of_sorted: "std_min (std_min a b) (std_max a b) = std_min a b"
  by (cases a; cases b) (auto simp: std_min_def std_max_def)

lemma std_max_of_sorted: "std_max (std_min a b) (std_max a b) = std_max a b"
  by (cases a; cases b) (auto simp: std_min_def std_max_def)

lemma std_min_le_std_max: "\<not> isnan a \<Longrightarrow> dle (std_min a b) (std_max a b)"
  by (cases a; cases b) (auto simp: std_min_def std_max_def dle_def)

subsection \<open>Rounding at particular values\<close>

lemma floor_log2_eq: "0 < x \<Longrightarrow> 2 ^ k \<le> x \<Longrightarrow> x < 2 ^ Suc k \<Longrightarrow> \<lfloor>log 2 x\<rfloor> = int k"
  by (simp add: floor_log_eq_powr_iff powr_realpow powr_add)

text \<open>Small integers and one half are doubles.\<close>

lemma round64_0 [simp]: "round64 0 = Fin 0"
  by (simp add: round64_def)

lemma round64_1 [simp]: "round64 1 = Fin 1"
  using dbl_max_gt by (simp add: round64_def rne_def Let_def power_int_minus)

lemma round64_2 [simp]: "round64 2 = Fin 2"
  using dbl_max_gt by (simp add: round64_def rne_def Let_def power_int_minus)

lemma round64_m1 [simp]: "round64 (- 1) = Fin (- 1)"
  using dbl_max_gt by (simp add: round64_def rne_def Let_def power_int_minus)

text \<open>\<open>1 - 2\<^sup>6\<^sup>0\<close> needs 60 significant bits: it rounds to \<open>-2\<^sup>6\<^sup>0\<close>.\<close>

lemma round64_big: "round64 (1 - 2 ^ 60) = Fin (- (2 ^ 60))"
proof -
  have fl: "\<lfloor>log 2 \<bar>1 - 2 ^ 60 :: real\<bar>\<rfloor> = 59"
    using floor_log2_eq [of "\<bar>1 - 2 ^ 60 :: real\<bar>" 59] by simp
  have "\<lfloor>(1 - 2 ^ 60) / 2 ^ 7 :: real\<rfloor> = - (2 ^ 53)"
    by (rule floor_unique) simp_all
  then have r: "rne ((1 - 2 ^ 60) / 2 ^ 7) = - (2 ^ 53)"
    by (simp add: rne_def Let_def)
  from fl r dbl_max_ge_2_60 show ?thesis
    by (simp add: round64_def Let_def)
qed

lemma round64_m2_60: "round64 (- (2 ^ 60)) = Fin (- (2 ^ 60))"
proof -
  have fl: "\<lfloor>log 2 \<bar>- (2 ^ 60) :: real\<bar>\<rfloor> = 60"
    using floor_log2_eq [of "\<bar>- (2 ^ 60) :: real\<bar>" 60] by simp
  have "\<lfloor>- (2 ^ 60) / 2 ^ 8 :: real\<rfloor> = - (2 ^ 52)"
    by (rule floor_unique) simp_all
  then have r: "rne (- (2 ^ 60) / 2 ^ 8) = - (2 ^ 52)"
    by (simp add: rne_def Let_def)
  from fl r dbl_max_ge_2_60 show ?thesis
    by (simp add: round64_def Let_def)
qed

lemma round64_half: "round64 (1 / 2) = Fin (1 / 2)"
proof -
  have fl: "\<lfloor>log 2 \<bar>1 / 2 :: real\<bar>\<rfloor> = - 1"
    by (simp add: floor_log_eq_powr_iff powr_minus)
  have "\<lfloor>(1 / 2) / (1 / 2 ^ 53) :: real\<rfloor> = 2 ^ 52"
    by (rule floor_unique) simp_all
  then have r: "rne ((1 / 2) / (1 / 2 ^ 53)) = 2 ^ 52"
    by (simp add: rne_def Let_def)
  from fl r dbl_max_gt show ?thesis
    by (simp add: round64_def Let_def power_int_minus divide_simps)
qed

text \<open>
  A tie goes to the even significand: \<open>1 + 2\<^sup>-\<^sup>5\<^sup>3\<close> lies halfway between \<open>1\<close> and
  \<open>1 + 2\<^sup>-\<^sup>5\<^sup>2\<close> and rounds down, \<open>1 + 3 \<sqdot> 2\<^sup>-\<^sup>5\<^sup>3\<close> lies halfway between \<open>1 + 2\<^sup>-\<^sup>5\<^sup>2\<close> and
  \<open>1 + 2\<^sup>-\<^sup>5\<^sup>1\<close> and rounds up.  Twice the largest double overflows.
\<close>

lemma round64_tie_even: "round64 (1 + 1 / 2 ^ 53) = Fin 1"
proof -
  have fl: "\<lfloor>log 2 \<bar>1 + 1 / 2 ^ 53 :: real\<bar>\<rfloor> = 0"
    using floor_log2_eq [of "\<bar>1 + 1 / 2 ^ 53 :: real\<bar>" 0] by simp
  have "\<lfloor>(1 + 1 / 2 ^ 53) * 2 ^ 52 :: real\<rfloor> = 2 ^ 52"
    by (rule floor_unique) (simp_all add: field_simps)
  then have r: "rne ((1 + 1 / 2 ^ 53) * 2 ^ 52) = 2 ^ 52"
    by (simp add: rne_def Let_def field_simps)
  from fl r dbl_max_gt show ?thesis
    by (simp add: round64_def Let_def power_int_minus field_simps)
qed

lemma round64_tie_odd: "round64 (1 + 3 / 2 ^ 53) = Fin (1 + 1 / 2 ^ 51)"
proof -
  have fl: "\<lfloor>log 2 \<bar>1 + 3 / 2 ^ 53 :: real\<bar>\<rfloor> = 0"
    using floor_log2_eq [of "\<bar>1 + 3 / 2 ^ 53 :: real\<bar>" 0] by simp
  have "\<lfloor>(1 + 3 / 2 ^ 53) * 2 ^ 52 :: real\<rfloor> = 2 ^ 52 + 1"
    by (rule floor_unique) (simp_all add: field_simps)
  then have r: "rne ((1 + 3 / 2 ^ 53) * 2 ^ 52) = 2 ^ 52 + 2"
    by (simp add: rne_def Let_def field_simps)
  from fl r dbl_max_gt show ?thesis
    by (simp add: round64_def Let_def power_int_minus field_simps)
qed

lemma round64_overflow: "round64 (2 * dbl_max) = PInf"
proof -
  have pos: "0 < 2 * dbl_max" using dbl_max_pos by simp
  have eq: "2 * dbl_max = 2 ^ 1025 - 2 ^ 972"
    by (simp add: dbl_max_def)
  have "(2::real) ^ 972 \<le> 2 ^ 1024" by (rule power_increasing) simp_all
  then have lo: "(2::real) ^ 1024 \<le> 2 * dbl_max" unfolding eq by simp
  have hi: "2 * dbl_max < 2 ^ Suc 1024" unfolding eq by simp
  have fl: "\<lfloor>log 2 \<bar>2 * dbl_max\<bar>\<rfloor> = 1024"
    using floor_log2_eq [of "2 * dbl_max" 1024] pos lo hi by simp
  have q: "2 * dbl_max / 2 ^ 972 = 2 ^ 53 - 1"
    unfolding eq by (simp add: field_simps)
  have r: "rne (2 * dbl_max / 2 ^ 972) = 2 ^ 53 - 1"
    unfolding q by (simp add: rne_def Let_def)
  have "dbl_max < (2 ^ 53 - 1) * 2 ^ 972"
    using dbl_max_pos eq by (simp add: algebra_simps)
  with fl r pos show ?thesis
    by (simp add: round64_def Let_def)
qed


section \<open>The null state\<close>

lemma spec_null_imp_isNull: "spec_null b \<Longrightarrow> isNull b"
  by (auto simp: spec_null_def isNull_def)

lemma isNull_char:
  "isNull b \<longleftrightarrow>
     (xMinimum (mBounds2d b) = NaN \<and> xMaximum (mBounds2d b) = NaN
        \<and> yMinimum (mBounds2d b) = NaN \<and> mZmin b = NaN \<and> mZmax b = NaN)
     \<or> (xMinimum (mBounds2d b) = DBL_MAX \<and> yMinimum (mBounds2d b) = DBL_MAX
        \<and> mZmin b = DBL_MAX \<and> xMaximum (mBounds2d b) = dneg DBL_MAX
        \<and> yMaximum (mBounds2d b) = dneg DBL_MAX \<and> mZmax b = dneg DBL_MAX)"
  by (auto simp: isNull_def isnan_iff)

text \<open>
  C1.  The claim: \<open>isNull()\<close> is true exactly when all six bounds are NaN or the box is in
  the sentinel-inverted state.  The NaN branch of the code reads \<open>xMaximum()\<close> twice and
  never \<open>yMaximum()\<close>: the box whose bounds are all NaN except a y-maximum of 5 (an
  all-NaN box after \<open>setYMaximum(5)\<close>) is reported null, although it is not in the null
  state of the specification.
\<close>

theorem isNull_ignores_yMaximum:
  "isNull (QgsBox3D NaN NaN NaN NaN (Fin 5) NaN False)
   \<and> \<not> spec_null (QgsBox3D NaN NaN NaN NaN (Fin 5) NaN False)
   \<and> setYMaximum (Fin 5) (QgsBox3D NaN NaN NaN NaN NaN NaN False)
       = QgsBox3D NaN NaN NaN NaN (Fin 5) NaN False"
  by (simp add: isNull_def spec_null_def QgsBox3D_def setYMaximum_def DBL_MAX_def)


section \<open>Normalization\<close>

lemma rect_normalize_idem: "rect_normalize (rect_normalize r) = rect_normalize r"
  by (auto simp: rect_normalize_def Let_def dgt_def dest: dlt_asym)

lemma rect_normalize_x_ordered:
  "\<not> isnan (xMinimum r) \<Longrightarrow> \<not> isnan (xMaximum r) \<Longrightarrow>
   dle (xMinimum (rect_normalize r)) (xMaximum (rect_normalize r))"
  by (cases "xMinimum r"; cases "xMaximum r")
     (auto simp: rect_normalize_def Let_def dgt_def dle_def)

lemma rect_normalize_y_ordered:
  "\<not> isnan (yMinimum r) \<Longrightarrow> \<not> isnan (yMaximum r) \<Longrightarrow>
   dle (yMinimum (rect_normalize r)) (yMaximum (rect_normalize r))"
  by (cases "yMinimum r"; cases "yMaximum r")
     (auto simp: rect_normalize_def Let_def dgt_def dle_def)

lemma normalize_idem: "normalize (normalize b) = normalize b"
  by (simp add: normalize_def Let_def rect_normalize_idem std_min_of_sorted std_max_of_sorted)

text \<open>
  C4, as amended.  \<open>normalize()\<close> is idempotent: normalizing a normalized box gives the
  same six bounds.  After \<open>normalize()\<close> the minimum is at most the maximum on every axis
  whose two bounds are not NaN.
\<close>

theorem normalize_idempotent_ordered:
  "normalize (normalize b) = normalize b
   \<and> (\<not> isnan (xMinimum (mBounds2d b)) \<and> \<not> isnan (xMaximum (mBounds2d b)) \<longrightarrow>
        dle (xMinimum (mBounds2d (normalize b))) (xMaximum (mBounds2d (normalize b))))
   \<and> (\<not> isnan (yMinimum (mBounds2d b)) \<and> \<not> isnan (yMaximum (mBounds2d b)) \<longrightarrow>
        dle (yMinimum (mBounds2d (normalize b))) (yMaximum (mBounds2d (normalize b))))
   \<and> (\<not> isnan (mZmin b) \<and> \<not> isnan (mZmax b) \<longrightarrow>
        dle (mZmin (normalize b)) (mZmax (normalize b)))"
proof -
  have z: "\<not> isnan (mZmin b) \<Longrightarrow> dle (mZmin (normalize b)) (mZmax (normalize b))"
    by (simp add: normalize_def Let_def std_min_le_std_max)
  have x: "\<not> isnan (xMinimum (mBounds2d b)) \<Longrightarrow> \<not> isnan (xMaximum (mBounds2d b)) \<Longrightarrow>
      dle (xMinimum (mBounds2d (normalize b))) (xMaximum (mBounds2d (normalize b)))"
    by (simp add: normalize_def Let_def rect_normalize_x_ordered)
  have y: "\<not> isnan (yMinimum (mBounds2d b)) \<Longrightarrow> \<not> isnan (yMaximum (mBounds2d b)) \<Longrightarrow>
      dle (yMinimum (mBounds2d (normalize b))) (yMaximum (mBounds2d (normalize b)))"
    by (simp add: normalize_def Let_def rect_normalize_y_ordered)
  from x y z normalize_idem show ?thesis
    by blast
qed

text \<open>The box \<open>(3, 5, 9) .. (1, 8, 2)\<close>, inverted on x and z, becomes \<open>(1, 5, 2) .. (3, 8, 9)\<close>.\<close>

theorem normalize_idempotent_ordered_witness:
  "normalize (QgsBox3D (Fin 3) (Fin 5) (Fin 9) (Fin 1) (Fin 8) (Fin 2) False)
     = QgsBox3D (Fin 1) (Fin 5) (Fin 2) (Fin 3) (Fin 8) (Fin 9) False
   \<and> normalize (normalize (QgsBox3D (Fin 3) (Fin 5) (Fin 9) (Fin 1) (Fin 8) (Fin 2) False))
     = normalize (QgsBox3D (Fin 3) (Fin 5) (Fin 9) (Fin 1) (Fin 8) (Fin 2) False)
   \<and> dle (Fin 1) (Fin 3) \<and> dle (Fin 5) (Fin 8) \<and> dle (Fin 2) (Fin 9)"
  using normalize_idempotent_ordered
          [of "QgsBox3D (Fin 3) (Fin 5) (Fin 9) (Fin 1) (Fin 8) (Fin 2) False"]
  by (simp add: QgsBox3D_def normalize_def rect_normalize_def Let_def dgt_def dle_def
                std_min_def std_max_def)

text \<open>
  The claim as written fails on a NaN bound.  A box without a z range (both z bounds NaN,
  as a box built from a 2D rectangle has) keeps its NaN bounds, and \<open>zmin <= zmax\<close> is
  false.  With \<open>zmin = NaN\<close> and \<open>zmax = 1\<close> both \<open>std::min(NaN, 1)\<close> and
  \<open>std::max(NaN, 1)\<close> return their first argument: the box ends with
  \<open>zmin = zmax = NaN\<close>.
\<close>

theorem normalize_nan_counterexample:
  "\<not> dle (mZmin (normalize (QgsBox3D (Fin 0) (Fin 0) NaN (Fin 1) (Fin 1) NaN False)))
          (mZmax (normalize (QgsBox3D (Fin 0) (Fin 0) NaN (Fin 1) (Fin 1) NaN False)))
   \<and> mZmin (normalize (QgsBox3D (Fin 0) (Fin 0) NaN (Fin 1) (Fin 1) (Fin 1) False)) = NaN
   \<and> mZmax (normalize (QgsBox3D (Fin 0) (Fin 0) NaN (Fin 1) (Fin 1) (Fin 1) False)) = NaN
   \<and> \<not> dle (mZmin (normalize (QgsBox3D (Fin 0) (Fin 0) NaN (Fin 1) (Fin 1) (Fin 1) False)))
            (mZmax (normalize (QgsBox3D (Fin 0) (Fin 0) NaN (Fin 1) (Fin 1) (Fin 1) False)))"
  by (simp add: QgsBox3D_def normalize_def Let_def std_min_def std_max_def dle_def)

text \<open>
  C9.  \<open>normalize()\<close> does not preserve the null state.  A box reset by \<open>setMinimal()\<close>
  is null; \<open>normalize()\<close> swaps its bounds, so that every minimum is \<open>-DBL_MAX\<close> and
  every maximum \<open>+DBL_MAX\<close>, and the result is not null.
\<close>

theorem normalize_setMinimal_not_null:
  "isNull (setMinimal b)
   \<and> normalize (setMinimal b)
       = QgsBox3D (dneg DBL_MAX) (dneg DBL_MAX) (dneg DBL_MAX) DBL_MAX DBL_MAX DBL_MAX False
   \<and> \<not> isNull (normalize (setMinimal b))"
  using dbl_max_pos
  by (simp add: isNull_def setMinimal_def rect_setMinimal_def normalize_def rect_normalize_def
                QgsBox3D_def Let_def dgt_def std_min_def std_max_def DBL_MAX_def)


section \<open>Intersection\<close>

lemma z_overlap_symmetric:
  "\<not> isnan a \<Longrightarrow> \<not> isnan a' \<Longrightarrow> \<not> isnan c \<Longrightarrow> \<not> isnan c' \<Longrightarrow>
   dle (if dgt a a' then a else a') (if dlt c c' then c else c')
     = dle (if dgt a' a then a' else a) (if dlt c' c then c' else c)"
  by (cases a; cases a'; cases c; cases c') (auto simp: dgt_def dle_def)

lemma intersects_symmetric:
  assumes "rect_intersects env (mBounds2d a) (mBounds2d b)
             = rect_intersects env (mBounds2d b) (mBounds2d a)"
  shows "intersects env a b = intersects env b a"
proof (cases "is2d env a \<or> is2d env b")
  case True
  with assms show ?thesis
    by (auto simp: intersects_def)
next
  case False
  then have "\<not> isnan (mZmin a)" "\<not> isnan (mZmin b)" "\<not> isnan (mZmax a)" "\<not> isnan (mZmax b)"
    by (simp_all add: is2d_def)
  then have "dle (if dgt (mZmin a) (mZmin b) then mZmin a else mZmin b)
                 (if dlt (mZmax a) (mZmax b) then mZmax a else mZmax b)
           = dle (if dgt (mZmin b) (mZmin a) then mZmin b else mZmin a)
                 (if dlt (mZmax b) (mZmax a) then mZmax b else mZmax a)"
    by (rule z_overlap_symmetric)
  with assms False show ?thesis
    by (simp add: intersects_def Let_def)
qed

lemma intersect_symmetric:
  assumes "rect_intersect env (mBounds2d a) (mBounds2d b)
             = rect_intersect env (mBounds2d b) (mBounds2d a)"
    and "\<not> isnan (mZmin a)" "\<not> isnan (mZmax a)" "\<not> isnan (mZmin b)" "\<not> isnan (mZmax b)"
  shows "intersect env a b = intersect env b a"
  using assms
  by (simp add: intersect_def Let_def std_max_commute [of "mZmin a" "mZmin b"]
                std_min_commute [of "mZmax a" "mZmax b"])

text \<open>The sample collaborator is symmetric on rectangles without a NaN bound.\<close>

lemma rect_overlap_symmetric:
  "\<not> isnan (xMinimum r) \<Longrightarrow> \<not> isnan (xMinimum s) \<Longrightarrow> \<not> isnan (xMaximum r) \<Longrightarrow>
   \<not> isnan (xMaximum s) \<Longrightarrow> \<not> isnan (yMinimum r) \<Longrightarrow> \<not> isnan (yMinimum s) \<Longrightarrow>
   \<not> isnan (yMaximum r) \<Longrightarrow> \<not> isnan (yMaximum s) \<Longrightarrow>
   rect_overlap r s = rect_overlap s r"
  by (simp add: rect_overlap_def std_max_commute [of "xMinimum r"]
                std_max_commute [of "yMinimum r"] std_min_commute [of "xMaximum r"]
                std_min_commute [of "yMaximum r"])

lemma rect_meet_symmetric:
  "\<not> isnan (xMinimum r) \<Longrightarrow> \<not> isnan (xMinimum s) \<Longrightarrow> \<not> isnan (xMaximum r) \<Longrightarrow>
   \<not> isnan (xMaximum s) \<Longrightarrow> \<not> isnan (yMinimum r) \<Longrightarrow> \<not> isnan (yMinimum s) \<Longrightarrow>
   \<not> isnan (yMaximum r) \<Longrightarrow> \<not> isnan (yMaximum s) \<Longrightarrow>
   rect_meet r s = rect_meet s r"
  by (simp add: rect_meet_def std_max_commute [of "xMinimum r"]
                std_max_commute [of "yMinimum r"] std_min_commute [of "xMaximum r"]
                std_min_commute [of "yMaximum r"])

lemma plain_collab_intersects_symmetric:
  assumes "\<not> isnan (xMinimum (mBounds2d a))" "\<not> isnan (xMinimum (mBounds2d b))"
    and "\<not> isnan (xMaximum (mBounds2d a))" "\<not> isnan (xMaximum (mBounds2d b))"
    and "\<not> isnan (yMinimum (mBounds2d a))" "\<not> isnan (yMinimum (mBounds2d b))"
    and "\<not> isnan (yMaximum (mBounds2d a))" "\<not> isnan (yMaximum (mBounds2d b))"
  shows "intersects (plain_collab nrm) a b = intersects (plain_collab nrm) b a"
proof (rule intersects_symmetric)
  show "rect_intersects (plain_collab nrm) (mBounds2d a) (mBounds2d b)
          = rect_intersects (plain_collab nrm) (mBounds2d b) (mBounds2d a)"
    using assms by (simp add: plain_collab_def rect_overlap_symmetric)
qed

text \<open>
  C6, as amended.  \<open>A.intersects(B)\<close> equals \<open>B.intersects(A)\<close> whenever the rectangle's
  own \<open>intersects\<close> gives the same answer for the two 2D parts in both orders; the boxes
  returned by \<open>A.intersect(B)\<close> and \<open>B.intersect(A)\<close> have the same six bounds whenever
  the rectangle's own \<open>intersect\<close> gives the same rectangle in both orders and no z bound
  of \<open>A\<close> or \<open>B\<close> is NaN.  Both hold for every tolerance comparison and for either
  default of the constructor's \<open>normalize\<close> flag.
\<close>

theorem intersects_intersect_symmetric:
  "(rect_intersects env (mBounds2d a) (mBounds2d b)
      = rect_intersects env (mBounds2d b) (mBounds2d a)
    \<longrightarrow> intersects env a b = intersects env b a)
   \<and> (rect_intersect env (mBounds2d a) (mBounds2d b)
        = rect_intersect env (mBounds2d b) (mBounds2d a)
      \<and> \<not> isnan (mZmin a) \<and> \<not> isnan (mZmax a) \<and> \<not> isnan (mZmin b) \<and> \<not> isnan (mZmax b)
    \<longrightarrow> intersect env a b = intersect env b a)"
  using intersects_symmetric [of env a b] intersect_symmetric [of env a b]
  by blast

text \<open>
  The boxes \<open>(0, 0, 0) .. (2, 2, 2)\<close> and \<open>(1, 1, 1) .. (3, 3, 3)\<close> intersect, in both
  orders, in \<open>(1, 1, 1) .. (2, 2, 2)\<close>.
\<close>

theorem intersects_intersect_symmetric_witness:
  "intersects (plain_collab False)
      (QgsBox3D (Fin 0) (Fin 0) (Fin 0) (Fin 2) (Fin 2) (Fin 2) False)
      (QgsBox3D (Fin 1) (Fin 1) (Fin 1) (Fin 3) (Fin 3) (Fin 3) False)
   \<and> intersects (plain_collab False)
      (QgsBox3D (Fin 1) (Fin 1) (Fin 1) (Fin 3) (Fin 3) (Fin 3) False)
      (QgsBox3D (Fin 0) (Fin 0) (Fin 0) (Fin 2) (Fin 2) (Fin 2) False)
   \<and> intersect (plain_collab False)
      (QgsBox3D (Fin 0) (Fin 0) (Fin 0) (Fin 2) (Fin 2) (Fin 2) False)
      (QgsBox3D (Fin 1) (Fin 1) (Fin 1) (Fin 3) (Fin 3) (Fin 3) False)
     = QgsBox3D (Fin 1) (Fin 1) (Fin 1) (Fin 2) (Fin 2) (Fin 2) False
   \<and> intersect (plain_collab False)
      (QgsBox3D (Fin 1) (Fin 1) (Fin 1) (Fin 3) (Fin 3) (Fin 3) False)
      (QgsBox3D (Fin 0) (Fin 0) (Fin 0) (Fin 2) (Fin 2) (Fin 2) False)
     = QgsBox3D (Fin 1) (Fin 1) (Fin 1) (Fin 2) (Fin 2) (Fin 2) False"
  using intersects_intersect_symmetric
          [of "plain_collab False"
              "QgsBox3D (Fin 0) (Fin 0) (Fin 0) (Fin 2) (Fin 2) (Fin 2) False"
              "QgsBox3D (Fin 1) (Fin 1) (Fin 1) (Fin 3) (Fin 3) (Fin 3) False"]
  by (simp add: plain_collab_def QgsBox3D_def intersects_def intersect_def is2d_def
                rect_overlap_def rect_meet_def Let_def dgt_def dle_def)

text \<open>
  The claim as written fails on a NaN bound.  \<open>A\<close> is a box without a z range (both z
  bounds NaN, as a box built from a 2D rectangle has) and \<open>B\<close> has the z range
  \<open>0 .. 1\<close>.  \<open>A.intersect(B)\<close> computes \<open>std::max(NaN, 0) = NaN\<close> and
  \<open>std::min(NaN, 1) = NaN\<close>; \<open>B.intersect(A)\<close> computes \<open>std::max(0, NaN) = 0\<close> and
  \<open>std::min(1, NaN) = 1\<close>: the first result has no z range, the second has that of \<open>B\<close>,
  whichever default the constructor's \<open>normalize\<close> flag has.
\<close>

theorem intersect_nan_counterexample:
  "mZmin (intersect (plain_collab False)
            (QgsBox3D (Fin 0) (Fin 0) NaN (Fin 1) (Fin 1) NaN False)
            (QgsBox3D (Fin 0) (Fin 0) (Fin 0) (Fin 1) (Fin 1) (Fin 1) False)) = NaN
   \<and> mZmax (intersect (plain_collab False)
            (QgsBox3D (Fin 0) (Fin 0) NaN (Fin 1) (Fin 1) NaN False)
            (QgsBox3D (Fin 0) (Fin 0) (Fin 0) (Fin 1) (Fin 1) (Fin 1) False)) = NaN
   \<and> mZmin (intersect (plain_collab False)
            (QgsBox3D (Fin 0) (Fin 0) (Fin 0) (Fin 1) (Fin 1) (Fin 1) False)
            (QgsBox3D (Fin 0) (Fin 0) NaN (Fin 1) (Fin 1) NaN False)) = Fin 0
   \<and> mZmax (intersect (plain_collab False)
            (QgsBox3D (Fin 0) (Fin 0) (Fin 0) (Fin 1) (Fin 1) (Fin 1) False)
            (QgsBox3D (Fin 0) (Fin 0) NaN (Fin 1) (Fin 1) NaN False)) = Fin 1
   \<and> mZmin (intersect (plain_collab True)
            (QgsBox3D (Fin 0) (Fin 0) NaN (Fin 1) (Fin 1) NaN False)
            (QgsBox3D (Fin 0) (Fin 0) (Fin 0) (Fin 1) (Fin 1) (Fin 1) False)) = NaN
   \<and> mZmin (intersect (plain_collab True)
            (QgsBox3D (Fin 0) (Fin 0) (Fin 0) (Fin 1) (Fin 1) (Fin 1) False)
            (QgsBox3D (Fin 0) (Fin 0) NaN (Fin 1) (Fin 1) NaN False)) = Fin 0"
  by (simp add: plain_collab_def QgsBox3D_def intersect_def normalize_def Let_def
                std_min_def std_max_def)


subsection \<open>The operands of \<open>intersect\<close>\<close>

text \<open>
  On the heap, \<open>normalize()\<close> rewrites its receiver to the normalized box and allocates
  nothing; the constructor writes one object, at the first free address.
\<close>

lemma normalize_at_objs:
  "objs (normalize_at this h) = (objs h)(this := normalize (objs h this))"
  by (simp add: normalize_at_def normalize_def Let_def fun_eq_iff)

lemma normalize_at_top: "top (normalize_at this h) = top h"
  by (simp add: normalize_at_def Let_def)

lemma construct_at_effect:
  "fst (construct_at xmin ymin zmin xmax ymax zmax nrm h) = top h"
  "top (snd (construct_at xmin ymin zmin xmax ymax zmax nrm h)) = Suc (top h)"
  "objs (snd (construct_at xmin ymin zmin xmax ymax zmax nrm h))
     = (objs h)(top h := QgsBox3D xmin ymin zmin xmax ymax zmax nrm)"
  by (simp_all add: construct_at_def Let_def normalize_at_objs normalize_at_top QgsBox3D_def
                    fun_eq_iff)

text \<open>
  C10.  \<open>intersect(other)\<close> is a pure query.  Run on a heap where the receiver and \<open>other\<close>
  are objects built before the call (they may be the same object), the body of
  \<open>QgsBox3D::intersect\<close> leaves the receiver and \<open>other\<close>, and every other object built
  before the call, with the six bounds they had; it returns a new object, at an address
  that held no object before, and that object is the intersection of the two operands.
  The only writes in the body are those of the constructor it calls, and of
  \<open>normalize()\<close> on the object under construction.
\<close>

theorem intersect_at_frame:
  assumes "this < top h" and "other < top h"
  shows "objs (snd (intersect_at env this other h)) this = objs h this
     \<and> objs (snd (intersect_at env this other h)) other = objs h other
     \<and> (\<forall>p. p < top h \<longrightarrow> objs (snd (intersect_at env this other h)) p = objs h p)
     \<and> fst (intersect_at env this other h) = top h
     \<and> top (snd (intersect_at env this other h)) = Suc (top h)
     \<and> objs (snd (intersect_at env this other h)) (fst (intersect_at env this other h))
         = intersect env (objs h this) (objs h other)"
  using assms
  by (simp add: intersect_at_def intersect_def Let_def construct_at_effect)

text \<open>
  By contrast \<open>normalize()\<close>, which is not \<open>const\<close>, changes the bounds of its receiver.
\<close>

lemma normalize_at_writes_receiver:
  "objs (normalize_at 0 \<lparr>objs = (\<lambda>_. QgsBox3D (Fin 1) (Fin 0) (Fin 0) (Fin 0) (Fin 1) (Fin 1) False),
                          top = 1\<rparr>) 0
     = QgsBox3D (Fin 0) (Fin 0) (Fin 0) (Fin 1) (Fin 1) (Fin 1) False"
  by (simp add: normalize_at_objs normalize_def rect_normalize_def QgsBox3D_def Let_def dgt_def)

text \<open>
  Two disjoint unit boxes at addresses 0 and 1: both are unchanged by the call, and the
  result, normalized by the constructor, is built at address 2.
\<close>

theorem intersect_at_frame_witness:
  "objs (snd (intersect_at (plain_collab True) 0 1
      \<lparr>objs = (\<lambda>_. QgsBox3D (Fin 2) (Fin 2) (Fin 2) (Fin 3) (Fin 3) (Fin 3) False)
                 (0 := QgsBox3D (Fin 0) (Fin 0) (Fin 0) (Fin 1) (Fin 1) (Fin 1) False),
        top = 2\<rparr>)) 0
     = QgsBox3D (Fin 0) (Fin 0) (Fin 0) (Fin 1) (Fin 1) (Fin 1) False
   \<and> objs (snd (intersect_at (plain_collab True) 0 1
      \<lparr>objs = (\<lambda>_. QgsBox3D (Fin 2) (Fin 2) (Fin 2) (Fin 3) (Fin 3) (Fin 3) False)
                 (0 := QgsBox3D (Fin 0) (Fin 0) (Fin 0) (Fin 1) (Fin 1) (Fin 1) False),
        top = 2\<rparr>)) 1
     = QgsBox3D (Fin 2) (Fin 2) (Fin 2) (Fin 3) (Fin 3) (Fin 3) False
   \<and> fst (intersect_at (plain_collab True) 0 1
      \<lparr>objs = (\<lambda>_. QgsBox3D (Fin 2) (Fin 2) (Fin 2) (Fin 3) (Fin 3) (Fin 3) False)
                 (0 := QgsBox3D (Fin 0) (Fin 0) (Fin 0) (Fin 1) (Fin 1) (Fin 1) False),
        top = 2\<rparr>) = 2
   \<and> objs (snd (intersect_at (plain_collab True) 0 1
      \<lparr>objs = (\<lambda>_. QgsBox3D (Fin 2) (Fin 2) (Fin 2) (Fin 3) (Fin 3) (Fin 3) False)
                 (0 := QgsBox3D (Fin 0) (Fin 0) (Fin 0) (Fin 1) (Fin 1) (Fin 1) False),
        top = 2\<rparr>)) 2
     = QgsBox3D (Fin 1) (Fin 1) (Fin 1) (Fin 2) (Fin 2) (Fin 2) False"
proof -
  let ?h = "\<lparr>objs = (\<lambda>_. QgsBox3D (Fin 2) (Fin 2) (Fin 2) (Fin 3) (Fin 3) (Fin 3) False)
                 (0 := QgsBox3D (Fin 0) (Fin 0) (Fin 0) (Fin 1) (Fin 1) (Fin 1) False),
        top = 2\<rparr>"
  have a: "(0::nat) < top ?h" "(1::nat) < top ?h"
    by simp_all
  have v: "intersect (plain_collab True) (objs ?h 0) (objs ?h 1)
      = QgsBox3D (Fin 1) (Fin 1) (Fin 1) (Fin 2) (Fin 2) (Fin 2) False"
    by (simp add: intersect_def plain_collab_def rect_meet_def QgsBox3D_def normalize_def
                  rect_normalize_def Let_def dgt_def)
  note inst = intersect_at_frame [OF a, of "plain_collab True"]
  from inst have keep: "objs (snd (intersect_at (plain_collab True) 0 1 ?h)) 0 = objs ?h 0"
      "objs (snd (intersect_at (plain_collab True) 0 1 ?h)) 1 = objs ?h 1"
    by blast+
  from inst have new: "fst (intersect_at (plain_collab True) 0 1 ?h) = 2"
    by simp
  from inst have "objs (snd (intersect_at (plain_collab True) 0 1 ?h))
                    (fst (intersect_at (plain_collab True) 0 1 ?h))
      = intersect (plain_collab True) (objs ?h 0) (objs ?h 1)"
    by blast
  then have val: "objs (snd (intersect_at (plain_collab True) 0 1 ?h)) 2
      = QgsBox3D (Fin 1) (Fin 1) (Fin 1) (Fin 2) (Fin 2) (Fin 2) False"
    unfolding new v .
  have o: "objs ?h 0 = QgsBox3D (Fin 0) (Fin 0) (Fin 0) (Fin 1) (Fin 1) (Fin 1) False"
      "objs ?h 1 = QgsBox3D (Fin 2) (Fin 2) (Fin 2) (Fin 3) (Fin 3) (Fin 3) False"
    by simp_all
  from keep [unfolded o] new val show ?thesis
    by (intro conjI)
qed


section \<open>Accumulating a bounding box\<close>

lemma Min_insert_min:
  "finite S \<Longrightarrow> Min (insert (min a x) S) = Min (insert a (insert x S))" for a :: real
  by (cases "S = {}") (simp_all add: min.assoc)

lemma Max_insert_max:
  "finite S \<Longrightarrow> Max (insert (max a x) S) = Max (insert a (insert x S))" for a :: real
  by (cases "S = {}") (simp_all add: max.assoc)

lemma combineAll_Fin:
  "combineAll \<lparr>mBounds2d = \<lparr>xMinimum = Fin x0, yMinimum = Fin y0,
                             xMaximum = Fin x1, yMaximum = Fin y1\<rparr>,
                mZmin = Fin z0, mZmax = Fin z1\<rparr> ps
   = \<lparr>mBounds2d = \<lparr>xMinimum = Fin (Min (insert x0 (px ` set ps))),
                    yMinimum = Fin (Min (insert y0 (py ` set ps))),
                    xMaximum = Fin (Max (insert x1 (px ` set ps))),
                    yMaximum = Fin (Max (insert y1 (py ` set ps)))\<rparr>,
      mZmin = Fin (Min (insert z0 (pz ` set ps))),
      mZmax = Fin (Max (insert z1 (pz ` set ps)))\<rparr>"
proof (induction ps arbitrary: x0 y0 x1 y1 z0 z1)
  case Nil
  show ?case by simp
next
  case (Cons p ps)
  obtain x y z where p: "p = (x, y, z)"
    by (cases p) auto
  show ?case
    by (simp add: p combineWith_def rect_combineExtentWith_def Cons.IH
                  Min_insert_min Max_insert_max)
qed

lemma Min_insert_above:
  "finite S \<Longrightarrow> S \<noteq> {} \<Longrightarrow> \<forall>s\<in>S. s \<le> m \<Longrightarrow> Min (insert m S) = Min S" for m :: real
  by (simp add: min_absorb2)

lemma Max_insert_below:
  "finite S \<Longrightarrow> S \<noteq> {} \<Longrightarrow> \<forall>s\<in>S. m \<le> s \<Longrightarrow> Max (insert m S) = Max S" for m :: real
  by (simp add: max_absorb2)

lemma combineAll_setMinimal:
  assumes "ps \<noteq> []" and "\<forall>p\<in>set ps. finite_point p"
  shows "combineAll (setMinimal b) ps = bounding_box ps"
proof -
  have start: "setMinimal b
      = \<lparr>mBounds2d = \<lparr>xMinimum = Fin dbl_max, yMinimum = Fin dbl_max,
                       xMaximum = Fin (- dbl_max), yMaximum = Fin (- dbl_max)\<rparr>,
         mZmin = Fin dbl_max, mZmax = Fin (- dbl_max)\<rparr>"
    by (simp add: setMinimal_def rect_setMinimal_def DBL_MAX_def)
  have ne: "px ` set ps \<noteq> {}" "py ` set ps \<noteq> {}" "pz ` set ps \<noteq> {}"
    using assms(1) by simp_all
  have up: "\<forall>s\<in>px ` set ps. s \<le> dbl_max" "\<forall>s\<in>py ` set ps. s \<le> dbl_max"
           "\<forall>s\<in>pz ` set ps. s \<le> dbl_max"
    using assms(2) by (auto simp: finite_point_def)
  have lo: "\<forall>s\<in>px ` set ps. - dbl_max \<le> s" "\<forall>s\<in>py ` set ps. - dbl_max \<le> s"
           "\<forall>s\<in>pz ` set ps. - dbl_max \<le> s"
    using assms(2) by (auto simp: finite_point_def)
  have fin: "finite (px ` set ps)" "finite (py ` set ps)" "finite (pz ` set ps)"
    by simp_all
  have m: "Min (insert dbl_max (px ` set ps)) = Min (px ` set ps)"
          "Min (insert dbl_max (py ` set ps)) = Min (py ` set ps)"
          "Min (insert dbl_max (pz ` set ps)) = Min (pz ` set ps)"
    by (rule Min_insert_above [OF fin(1) ne(1) up(1)],
        rule Min_insert_above [OF fin(2) ne(2) up(2)],
        rule Min_insert_above [OF fin(3) ne(3) up(3)])
  have M: "Max (insert (- dbl_max) (px ` set ps)) = Max (px ` set ps)"
          "Max (insert (- dbl_max) (py ` set ps)) = Max (py ` set ps)"
          "Max (insert (- dbl_max) (pz ` set ps)) = Max (pz ` set ps)"
    by (rule Max_insert_below [OF fin(1) ne(1) lo(1)],
        rule Max_insert_below [OF fin(2) ne(2) lo(2)],
        rule Max_insert_below [OF fin(3) ne(3) lo(3)])
  show ?thesis
    unfolding start combineAll_Fin bounding_box_def m M ..
qed

lemma bounding_box_cong: "set qs = set ps \<Longrightarrow> bounding_box qs = bounding_box ps"
  by (simp add: bounding_box_def)

text \<open>
  C2.  Starting from a box reset by \<open>setMinimal()\<close> and combining the points of a
  non-empty sequence with finite coordinates one by one, the box ends with exactly the
  coordinate-wise minima and maxima of the points, and every reordering of the sequence
  gives the same box.
\<close>

theorem combineAll_bounding_box:
  assumes "ps \<noteq> []" and "\<forall>p\<in>set ps. finite_point p"
  shows "combineAll (setMinimal b) ps = bounding_box ps
         \<and> (\<forall>qs. mset qs = mset ps \<longrightarrow> combineAll (setMinimal b) qs = combineAll (setMinimal b) ps)"
proof (intro conjI allI impI)
  show "combineAll (setMinimal b) ps = bounding_box ps"
    using assms by (rule combineAll_setMinimal)
next
  fix qs
  assume "mset qs = mset ps"
  then have s: "set qs = set ps"
    by (rule mset_eq_setD)
  with assms have "qs \<noteq> []" "\<forall>p\<in>set qs. finite_point p"
    by auto
  then have "combineAll (setMinimal b) qs = bounding_box qs"
    by (rule combineAll_setMinimal)
  also have "\<dots> = bounding_box ps"
    using s by (rule bounding_box_cong)
  also have "\<dots> = combineAll (setMinimal b) ps"
    using assms by (rule combineAll_setMinimal [symmetric])
  finally show "combineAll (setMinimal b) qs = combineAll (setMinimal b) ps" .
qed

text \<open>The points \<open>(1, 4, 2)\<close> and \<open>(3, -4, 0)\<close>, in both orders.\<close>

theorem combineAll_bounding_box_witness:
  "combineAll (setMinimal (QgsBox3D NaN NaN NaN NaN NaN NaN False)) [(1, 4, 2), (3, - 4, 0)]
     = QgsBox3D (Fin 1) (Fin (- 4)) (Fin 0) (Fin 3) (Fin 4) (Fin 2) False
   \<and> combineAll (setMinimal (QgsBox3D NaN NaN NaN NaN NaN NaN False)) [(3, - 4, 0), (1, 4, 2)]
     = QgsBox3D (Fin 1) (Fin (- 4)) (Fin 0) (Fin 3) (Fin 4) (Fin 2) False"
proof -
  have ne: "[(1, 4, 2), (3, - 4, 0)] \<noteq> ([] :: (real \<times> real \<times> real) list)"
    by simp
  have fin: "\<forall>p\<in>set [(1, 4, 2), (3, - 4, 0)]. finite_point p"
    using dbl_max_gt by (simp add: finite_point_def)
  have perm: "mset [(3, - 4, 0), (1, 4, 2)] = mset [(1 :: real, 4 :: real, 2 :: real), (3, - 4, 0)]"
    by (simp add: add_mset_commute)
  note inst = combineAll_bounding_box [OF ne fin, of "QgsBox3D NaN NaN NaN NaN NaN NaN False"]
  from inst have "combineAll (setMinimal (QgsBox3D NaN NaN NaN NaN NaN NaN False))
                   [(1, 4, 2), (3, - 4, 0)] = bounding_box [(1, 4, 2), (3, - 4, 0)]"
    by (rule conjunct1)
  moreover from inst perm
  have "combineAll (setMinimal (QgsBox3D NaN NaN NaN NaN NaN NaN False)) [(3, - 4, 0), (1, 4, 2)]
          = combineAll (setMinimal (QgsBox3D NaN NaN NaN NaN NaN NaN False))
              [(1, 4, 2), (3, - 4, 0)]"
    by blast
  moreover have "bounding_box [(1, 4, 2), (3, - 4, 0)]
      = QgsBox3D (Fin 1) (Fin (- 4)) (Fin 0) (Fin 3) (Fin 4) (Fin 2) False"
    by (simp add: bounding_box_def QgsBox3D_def)
  ultimately show ?thesis
    by simp
qed


section \<open>Scaling\<close>

subsection \<open>One bound\<close>

lemma scale_bound_one:
  "exact_about c b \<Longrightarrow> dadd c (dmul (dsub b c) (Fin 1)) = b"
  by (cases c; cases b) (simp_all add: representable_def dsub_def)

lemma scale_bound_zero:
  "finite_about c b \<Longrightarrow> dadd c (dmul (dsub b c) (Fin 0)) = c"
proof (cases c; cases b)
  fix c' b'
  assume "c = Fin c'" "b = Fin b'" "finite_about c b"
  then show ?thesis
    by (cases "round64 (b' - c')") (simp_all add: representable_def dsub_def)
qed simp_all

lemma scale_fields:
  "xMinimum (mBounds2d (scale f cx cy cz b)) = dadd cx (dmul (dsub (xMinimum (mBounds2d b)) cx) f)"
  "xMaximum (mBounds2d (scale f cx cy cz b)) = dadd cx (dmul (dsub (xMaximum (mBounds2d b)) cx) f)"
  "yMinimum (mBounds2d (scale f cx cy cz b)) = dadd cy (dmul (dsub (yMinimum (mBounds2d b)) cy) f)"
  "yMaximum (mBounds2d (scale f cx cy cz b)) = dadd cy (dmul (dsub (yMaximum (mBounds2d b)) cy) f)"
  "mZmin (scale f cx cy cz b) = dadd cz (dmul (dsub (mZmin b) cz) f)"
  "mZmax (scale f cx cy cz b) = dadd cz (dmul (dsub (mZmax b) cz) f)"
  by (simp_all add: scale_def Let_def setXMinimum_def setXMaximum_def
                    setYMinimum_def setYMaximum_def setZMinimum_def setZMaximum_def)

lemma box3d_eqI:
  fixes a b :: box3d
  assumes "xMinimum (mBounds2d a) = xMinimum (mBounds2d b)"
    and "yMinimum (mBounds2d a) = yMinimum (mBounds2d b)"
    and "xMaximum (mBounds2d a) = xMaximum (mBounds2d b)"
    and "yMaximum (mBounds2d a) = yMaximum (mBounds2d b)"
    and "mZmin a = mZmin b" and "mZmax a = mZmax b"
  shows "a = b"
  using assms by (intro box3d.equality rect.equality) simp_all

subsection \<open>The box\<close>

text \<open>
  C5, as amended.  For a center point with finite coordinates: \<open>scale(1.0, center)\<close>
  leaves the six bounds of a box unchanged when the difference between each finite bound
  and the center coordinate of its axis is computed exactly; and for a box with finite
  bounds, \<open>scale(0.0, center)\<close> sets every bound to the center coordinate of its axis
  when none of these differences overflows.
\<close>

theorem scale_one_zero:
  "(exact_about cx (xMinimum (mBounds2d b)) \<and> exact_about cx (xMaximum (mBounds2d b))
      \<and> exact_about cy (yMinimum (mBounds2d b)) \<and> exact_about cy (yMaximum (mBounds2d b))
      \<and> exact_about cz (mZmin b) \<and> exact_about cz (mZmax b)
    \<longrightarrow> scale (Fin 1) cx cy cz b = b)
   \<and> (finite_about cx (xMinimum (mBounds2d b)) \<and> finite_about cx (xMaximum (mBounds2d b))
      \<and> finite_about cy (yMinimum (mBounds2d b)) \<and> finite_about cy (yMaximum (mBounds2d b))
      \<and> finite_about cz (mZmin b) \<and> finite_about cz (mZmax b)
    \<longrightarrow> scale (Fin 0) cx cy cz b = QgsBox3D cx cy cz cx cy cz False)"
proof (intro conjI impI)
  assume "exact_about cx (xMinimum (mBounds2d b)) \<and> exact_about cx (xMaximum (mBounds2d b))
      \<and> exact_about cy (yMinimum (mBounds2d b)) \<and> exact_about cy (yMaximum (mBounds2d b))
      \<and> exact_about cz (mZmin b) \<and> exact_about cz (mZmax b)"
  then show "scale (Fin 1) cx cy cz b = b"
    by (intro box3d_eqI) (simp_all add: scale_fields scale_bound_one)
next
  assume "finite_about cx (xMinimum (mBounds2d b)) \<and> finite_about cx (xMaximum (mBounds2d b))
      \<and> finite_about cy (yMinimum (mBounds2d b)) \<and> finite_about cy (yMaximum (mBounds2d b))
      \<and> finite_about cz (mZmin b) \<and> finite_about cz (mZmax b)"
  then show "scale (Fin 0) cx cy cz b = QgsBox3D cx cy cz cx cy cz False"
    by (intro box3d_eqI) (simp_all add: scale_fields scale_bound_zero QgsBox3D_def)
qed

text \<open>The box \<open>(0, 0, 0) .. (2, 2, 2)\<close> scaled about \<open>(1, 1, 1)\<close>.\<close>

theorem scale_one_zero_witness:
  "scale (Fin 1) (Fin 1) (Fin 1) (Fin 1)
      (QgsBox3D (Fin 0) (Fin 0) (Fin 0) (Fin 2) (Fin 2) (Fin 2) False)
     = QgsBox3D (Fin 0) (Fin 0) (Fin 0) (Fin 2) (Fin 2) (Fin 2) False
   \<and> scale (Fin 0) (Fin 1) (Fin 1) (Fin 1)
      (QgsBox3D (Fin 0) (Fin 0) (Fin 0) (Fin 2) (Fin 2) (Fin 2) False)
     = QgsBox3D (Fin 1) (Fin 1) (Fin 1) (Fin 1) (Fin 1) (Fin 1) False"
proof -
  have e: "exact_about (Fin 1) (Fin 0)" "exact_about (Fin 1) (Fin 2)"
    by (simp_all add: representable_def)
  have f: "finite_about (Fin 1) (Fin 0)" "finite_about (Fin 1) (Fin 2)"
    by (simp_all add: representable_def)
  from scale_one_zero
         [of "Fin 1" "QgsBox3D (Fin 0) (Fin 0) (Fin 0) (Fin 2) (Fin 2) (Fin 2) False"
             "Fin 1" "Fin 1"]
       e f
  show ?thesis
    by (simp add: QgsBox3D_def)
qed

text \<open>
  The claim as written fails in three ways.  A center without a z coordinate (NaN, as a
  2D point has) turns the z bounds of the unit box into NaN under \<open>scale(1.0, center)\<close>.
  About the center \<open>(2\<^sup>6\<^sup>0, 0, 0)\<close> the difference \<open>1 - 2\<^sup>6\<^sup>0\<close> rounds to \<open>-2\<^sup>6\<^sup>0\<close>, and
  \<open>scale(1.0, center)\<close> moves the x maximum from 1 to 0.  A box unbounded above in z
  does not collapse under \<open>scale(0.0, center)\<close>: infinity times zero is NaN.
\<close>

theorem scale_counterexample:
  "mZmin (scale (Fin 1) (Fin 0) (Fin 0) NaN
            (QgsBox3D (Fin 0) (Fin 0) (Fin 0) (Fin 1) (Fin 1) (Fin 1) False)) = NaN
   \<and> xMaximum (mBounds2d (scale (Fin 1) (Fin (2 ^ 60)) (Fin 0) (Fin 0)
            (QgsBox3D (Fin 0) (Fin 0) (Fin 0) (Fin 1) (Fin 1) (Fin 1) False))) = Fin 0
   \<and> mZmax (scale (Fin 0) (Fin 0) (Fin 0) (Fin 0)
            (QgsBox3D (Fin 0) (Fin 0) (Fin 0) (Fin 1) (Fin 1) PInf False)) = NaN"
  by (simp add: scale_def QgsBox3D_def Let_def setXMinimum_def setXMaximum_def
                setYMinimum_def setYMaximum_def setZMinimum_def setZMaximum_def dsub_def
                round64_big [simplified] round64_m2_60 [simplified])


section \<open>Distance to a point\<close>

subsection \<open>Rounding a difference that is not positive\<close>

lemma rne_nonpos: "y \<le> 0 \<Longrightarrow> rne y \<le> 0"
proof -
  assume y: "y \<le> 0"
  then have f: "\<lfloor>y\<rfloor> \<le> 0" by linarith
  show ?thesis
  proof (cases "y = 0")
    case True
    then show ?thesis by (simp add: rne_def)
  next
    case False
    with y have "y < 0" by simp
    then have "\<lfloor>y\<rfloor> \<le> - 1" by linarith
    then show ?thesis by (simp add: rne_def Let_def)
  qed
qed

lemma round64_nonpos:
  assumes "x \<le> 0"
  shows "round64 x = NInf \<or> (\<exists>r. r \<le> 0 \<and> round64 x = Fin r)"
proof (cases "x = 0")
  case True
  then show ?thesis by (simp add: round64_def)
next
  case False
  define e where "e = max \<lfloor>log 2 \<bar>x\<bar>\<rfloor> (- 1022) - 52"
  have p: "(0::real) < 2 powi e" by simp
  with assms have "x / 2 powi e \<le> 0" by (simp add: divide_le_0_iff)
  then have "rne (x / 2 powi e) \<le> 0" by (rule rne_nonpos)
  then have "of_int (rne (x / 2 powi e)) * 2 powi e \<le> (0::real)"
    using p by (simp add: mult_le_0_iff)
  with False assms show ?thesis
    by (auto simp: round64_def Let_def e_def)
qed

lemma std_max_zero_nonpos:
  "a = NInf \<or> (\<exists>r. r \<le> 0 \<and> a = Fin r) \<Longrightarrow> std_max (Fin 0) a = Fin 0 \<and> std_max a (Fin 0) = Fin 0"
  by (auto simp: std_max_def)

lemma dsub_nonpos:
  assumes "dle lo (Fin c)"
  shows "dsub lo (Fin c) = NInf \<or> (\<exists>r. r \<le> 0 \<and> dsub lo (Fin c) = Fin r)"
proof (cases lo)
  case (Fin l)
  with assms have "l - c \<le> 0"
    by (auto simp: dle_def)
  from round64_nonpos [OF this] Fin show ?thesis
    by (simp add: dsub_def)
qed (use assms in \<open>simp_all add: dle_def dsub_def\<close>)

lemma dsub_nonpos':
  assumes "dle (Fin c) hi"
  shows "dsub (Fin c) hi = NInf \<or> (\<exists>r. r \<le> 0 \<and> dsub (Fin c) hi = Fin r)"
proof (cases hi)
  case (Fin u)
  with assms have "c - u \<le> 0"
    by (auto simp: dle_def)
  from round64_nonpos [OF this] Fin show ?thesis
    by (simp add: dsub_def)
qed (use assms in \<open>simp_all add: dle_def dsub_def\<close>)

subsection \<open>The gap on one axis\<close>

text \<open>
  The source computes \<open>max(lower - c, max(0, c - upper))\<close>; the specification writes
  \<open>max(0, max(lower - c, c - upper))\<close>.  The two agree unless a difference is NaN, and
  the gap of a finite coordinate between the bounds is 0.
\<close>

lemma axis_gap_inside:
  assumes "dle lo (Fin c)" and "dle (Fin c) hi"
  shows "axis_gap lo hi (Fin c) = Fin 0"
proof -
  from assms(2) have "std_max (Fin 0) (dsub (Fin c) hi) = Fin 0"
    using std_max_zero_nonpos [OF dsub_nonpos'] by blast
  moreover from assms(1) have "std_max (dsub lo (Fin c)) (Fin 0) = Fin 0"
    using std_max_zero_nonpos [OF dsub_nonpos] by blast
  ultimately show ?thesis
    by (simp add: axis_gap_def)
qed

lemma axis_gap_spec:
  "\<not> isnan (dsub lo c) \<Longrightarrow> \<not> isnan (dsub c hi) \<Longrightarrow> axis_gap lo hi c = spec_gap lo hi c"
  by (cases "dsub lo c"; cases "dsub c hi") (auto simp: axis_gap_def spec_gap_def std_max_def)

lemma distanceTo_gaps:
  "distanceTo env x y z b =
     (if is2d env b \<or> isnan z
      then hypot2 env (axis_gap (xMinimum (mBounds2d b)) (xMaximum (mBounds2d b)) x)
                      (axis_gap (yMinimum (mBounds2d b)) (yMaximum (mBounds2d b)) y)
      else hypot3 env (axis_gap (xMinimum (mBounds2d b)) (xMaximum (mBounds2d b)) x)
                      (axis_gap (yMinimum (mBounds2d b)) (yMaximum (mBounds2d b)) y)
                      (axis_gap (mZmin b) (mZmax b) z))"
  by (simp add: distanceTo_def axis_gap_def Let_def)

subsection \<open>The example box\<close>

lemma round64_5: "round64 5 = Fin 5"
proof -
  have fl: "\<lfloor>log 2 \<bar>5 :: real\<bar>\<rfloor> = 2"
    using floor_log2_eq [of "\<bar>5 :: real\<bar>" 2] by simp
  have "\<lfloor>5 * 2 ^ 50 :: real\<rfloor> = 5 * 2 ^ 50"
    by (rule floor_unique) simp_all
  then have r: "rne (5 * 2 ^ 50) = 5 * 2 ^ 50"
    by (simp add: rne_def Let_def)
  from fl r dbl_max_ge_2_60 show ?thesis
    by (simp add: round64_def Let_def power_int_minus)
qed

lemma axis_gap_beyond: "axis_gap (Fin 0) (Fin 10) (Fin 15) = Fin 5"
proof -
  have "dsub (Fin 15) (Fin 10) = Fin 5"
    by (simp add: dsub_def round64_5)
  moreover have "dsub (Fin 0) (Fin 15) = NInf \<or> (\<exists>r. r \<le> 0 \<and> dsub (Fin 0) (Fin 15) = Fin r)"
    by (rule dsub_nonpos) (simp add: dle_def)
  ultimately show ?thesis
    by (auto simp: axis_gap_def std_max_def)
qed

lemma sqrt_25: "sqrt 25 = 5"
  by (rule real_sqrt_unique) simp_all

lemma sqrt_75_scaled: "sqrt 75 * 2 ^ 49 = sqrt (75 * 2 ^ 98)"
proof -
  have "sqrt (2 ^ 98) = (2 ^ 49 :: real)"
    by (rule real_sqrt_unique) simp_all
  then show ?thesis
    by (simp only: real_sqrt_mult)
qed

lemma rne_up: "\<lfloor>y\<rfloor> = f \<Longrightarrow> of_int f + 1 / 2 < y \<Longrightarrow> rne y = f + 1"
  by (auto simp: rne_def Let_def)

lemma round64_sqrt_75: "round64 (sqrt 75) = Fin (4875289607221227 / 2 ^ 49)"
proof -
  have lo: "(2::real) ^ 3 \<le> sqrt 75"
    by (rule real_le_rsqrt) simp
  have hi: "sqrt 75 < (2::real) ^ Suc 3"
    by (rule real_less_lsqrt) simp_all
  have pos: "0 < sqrt (75::real)"
    by simp
  have fl: "\<lfloor>log 2 \<bar>sqrt 75 :: real\<bar>\<rfloor> = 3"
    using floor_log2_eq [of "sqrt 75" 3] lo hi pos by simp
  have below: "(4875289607221226 + 1 / 2 :: real) < sqrt 75 * 2 ^ 49"
    unfolding sqrt_75_scaled by (rule real_less_rsqrt) (simp add: power2_eq_square)
  have above: "sqrt 75 * 2 ^ 49 < (4875289607221227 :: real)"
    unfolding sqrt_75_scaled by (rule real_less_lsqrt) (simp_all add: power2_eq_square)
  have f: "\<lfloor>sqrt 75 * 2 ^ 49 :: real\<rfloor> = 4875289607221226"
    using below above by (intro floor_unique) simp_all
  have "rne (sqrt 75 * 2 ^ 49) = 4875289607221226 + 1"
    using f by (rule rne_up) (use below in simp)
  then have r: "rne (sqrt 75 * 2 ^ 49) = 4875289607221227"
    by simp
  have "(4875289607221227 :: real) / 2 ^ 49 \<le> 2 ^ 60"
    by simp
  with dbl_max_ge_2_60 have "(4875289607221227 :: real) / 2 ^ 49 \<le> dbl_max"
    by linarith
  with fl r pos show ?thesis
    by (simp add: round64_def Let_def power_int_minus)
qed

lemma not_sqrt_75: "(4875289607221227 / 2 ^ 49 :: real) \<noteq> sqrt 75"
proof
  assume eq: "(4875289607221227 / 2 ^ 49 :: real) = sqrt 75"
  have "(4875289607221227 / 2 ^ 49 :: real)\<^sup>2 = 75"
    unfolding eq by simp
  then show False
    by (simp add: power2_eq_square)
qed

subsection \<open>The distance\<close>

lemma distanceTo_inside:
  assumes h: "hypot2 env (Fin 0) (Fin 0) = Fin 0" "hypot3 env (Fin 0) (Fin 0) (Fin 0) = Fin 0"
    and x: "dle (xMinimum (mBounds2d b)) (Fin u)" "dle (Fin u) (xMaximum (mBounds2d b))"
    and y: "dle (yMinimum (mBounds2d b)) (Fin v)" "dle (Fin v) (yMaximum (mBounds2d b))"
    and z: "is2d env b \<or> isnan z \<or> (is_fin z \<and> dle (mZmin b) z \<and> dle z (mZmax b))"
  shows "distanceTo env (Fin u) (Fin v) z b = Fin 0"
proof (cases "is2d env b \<or> isnan z")
  case True
  with h x y show ?thesis
    by (simp add: distanceTo_gaps axis_gap_inside)
next
  case False
  with z obtain w where "z = Fin w" "dle (mZmin b) (Fin w)" "dle (Fin w) (mZmax b)"
    by (cases z) auto
  with False h x y show ?thesis
    by (simp add: distanceTo_gaps axis_gap_inside)
qed

lemma distanceTo_examples:
  assumes "\<not> qgsDoubleNear env (Fin 0) (Fin 10)"
  shows "distanceTo env (Fin 15) (Fin 5) (Fin 5)
           (QgsBox3D (Fin 0) (Fin 0) (Fin 0) (Fin 10) (Fin 10) (Fin 10) False)
         = hypot3 env (Fin 5) (Fin 0) (Fin 0)"
    and "distanceTo env (Fin 15) (Fin 15) (Fin 15)
           (QgsBox3D (Fin 0) (Fin 0) (Fin 0) (Fin 10) (Fin 10) (Fin 10) False)
         = hypot3 env (Fin 5) (Fin 5) (Fin 5)"
proof -
  have in5: "axis_gap (Fin 0) (Fin 10) (Fin 5) = Fin 0"
    by (rule axis_gap_inside) (simp_all add: dle_def)
  have "\<not> is2d env (QgsBox3D (Fin 0) (Fin 0) (Fin 0) (Fin 10) (Fin 10) (Fin 10) False)"
    using assms by (simp add: is2d_def QgsBox3D_def dgt_def)
  then show "distanceTo env (Fin 15) (Fin 5) (Fin 5)
           (QgsBox3D (Fin 0) (Fin 0) (Fin 0) (Fin 10) (Fin 10) (Fin 10) False)
         = hypot3 env (Fin 5) (Fin 0) (Fin 0)"
    and "distanceTo env (Fin 15) (Fin 15) (Fin 15)
           (QgsBox3D (Fin 0) (Fin 0) (Fin 0) (Fin 10) (Fin 10) (Fin 10) False)
         = hypot3 env (Fin 5) (Fin 5) (Fin 5)"
    by (simp_all add: distanceTo_gaps) (simp_all add: QgsBox3D_def in5 axis_gap_beyond)
qed

text \<open>
  C3, as amended.  \<open>distanceTo(point)\<close> returns \<open>std::hypot\<close> of the per-axis gaps, each
  computed in double arithmetic: of the x and y gaps when the box is 2D-degenerate or the
  point's z is NaN, of all three gaps otherwise.  The gap on an axis is
  \<open>max(0, max(lower - coord, coord - upper))\<close> whenever neither difference is NaN.
  When \<open>std::hypot\<close> of zeros is 0, the distance is 0 for every point with finite
  coordinates inside the box.  For the box (0,0,0,10,10,10), which is not 2D-degenerate
  when 0 and 10 are not near each other, the gaps of (15,5,5) are (5,0,0) and those of
  (15,15,15) are (5,5,5), so the distances are \<open>std::hypot(5,0,0)\<close> and
  \<open>std::hypot(5,5,5)\<close>.
\<close>

theorem distanceTo_spec:
  "distanceTo env x y z b =
     (if is2d env b \<or> isnan z
      then hypot2 env (axis_gap (xMinimum (mBounds2d b)) (xMaximum (mBounds2d b)) x)
                      (axis_gap (yMinimum (mBounds2d b)) (yMaximum (mBounds2d b)) y)
      else hypot3 env (axis_gap (xMinimum (mBounds2d b)) (xMaximum (mBounds2d b)) x)
                      (axis_gap (yMinimum (mBounds2d b)) (yMaximum (mBounds2d b)) y)
                      (axis_gap (mZmin b) (mZmax b) z))
   \<and> (\<not> isnan (dsub lo c) \<and> \<not> isnan (dsub c hi) \<longrightarrow> axis_gap lo hi c = spec_gap lo hi c)
   \<and> (hypot2 env (Fin 0) (Fin 0) = Fin 0 \<and> hypot3 env (Fin 0) (Fin 0) (Fin 0) = Fin 0
      \<and> dle (xMinimum (mBounds2d b)) (Fin u) \<and> dle (Fin u) (xMaximum (mBounds2d b))
      \<and> dle (yMinimum (mBounds2d b)) (Fin v) \<and> dle (Fin v) (yMaximum (mBounds2d b))
      \<and> (is2d env b \<or> isnan z \<or> (is_fin z \<and> dle (mZmin b) z \<and> dle z (mZmax b)))
    \<longrightarrow> distanceTo env (Fin u) (Fin v) z b = Fin 0)
   \<and> (\<not> qgsDoubleNear env (Fin 0) (Fin 10)
    \<longrightarrow> distanceTo env (Fin 15) (Fin 5) (Fin 5)
          (QgsBox3D (Fin 0) (Fin 0) (Fin 0) (Fin 10) (Fin 10) (Fin 10) False)
        = hypot3 env (Fin 5) (Fin 0) (Fin 0)
      \<and> distanceTo env (Fin 15) (Fin 15) (Fin 15)
          (QgsBox3D (Fin 0) (Fin 0) (Fin 0) (Fin 10) (Fin 10) (Fin 10) False)
        = hypot3 env (Fin 5) (Fin 5) (Fin 5))"
  using distanceTo_gaps [where env = env and x = x and y = y and z = z and b = b]
        axis_gap_spec [where lo = lo and c = c and hi = hi]
        distanceTo_inside [where env = env and b = b and u = u and v = v and z = z]
        distanceTo_examples [where env = env]
  by blast

text \<open>The correctly rounded \<open>std::hypot\<close> at the gaps of the examples.\<close>

lemma plain_hypot_values:
  "hypot2 (plain_collab nrm) (Fin 0) (Fin 0) = Fin 0"
  "hypot3 (plain_collab nrm) (Fin 0) (Fin 0) (Fin 0) = Fin 0"
  "hypot3 (plain_collab nrm) (Fin 5) (Fin 0) (Fin 0) = Fin 5"
  "hypot3 (plain_collab nrm) (Fin 5) (Fin 5) (Fin 5) = Fin (4875289607221227 / 2 ^ 49)"
  by (simp_all add: plain_collab_def rounded_hypot2_def rounded_hypot3_def sqrt_25 round64_5
                    round64_sqrt_75)

text \<open>
  With a correctly rounded \<open>std::hypot\<close>: the point (5,5,5) inside the example box is at
  distance 0 and the point (15,5,5) at distance 5.
\<close>

theorem distanceTo_spec_witness:
  "distanceTo (plain_collab False) (Fin 5) (Fin 5) (Fin 5)
      (QgsBox3D (Fin 0) (Fin 0) (Fin 0) (Fin 10) (Fin 10) (Fin 10) False) = Fin 0
   \<and> distanceTo (plain_collab False) (Fin 15) (Fin 5) (Fin 5)
      (QgsBox3D (Fin 0) (Fin 0) (Fin 0) (Fin 10) (Fin 10) (Fin 10) False) = Fin 5
   \<and> axis_gap (Fin 0) (Fin 10) (Fin 15) = spec_gap (Fin 0) (Fin 10) (Fin 15)
   \<and> axis_gap (Fin 0) (Fin 10) (Fin 15) = Fin 5"
proof -
  let ?env = "plain_collab False"
  let ?b = "QgsBox3D (Fin 0) (Fin 0) (Fin 0) (Fin 10) (Fin 10) (Fin 10) False"
  have near: "\<not> qgsDoubleNear ?env (Fin 0) (Fin 10)"
    by (simp add: plain_collab_def)
  have nn: "\<not> isnan (dsub (Fin 0) (Fin 15))" "\<not> isnan (dsub (Fin 15) (Fin 10))"
    using dsub_nonpos [of "Fin 0" 15] by (auto simp: dle_def dsub_def round64_5)
  have inside: "dle (xMinimum (mBounds2d ?b)) (Fin 5)" "dle (Fin 5) (xMaximum (mBounds2d ?b))"
      "dle (yMinimum (mBounds2d ?b)) (Fin 5)" "dle (Fin 5) (yMaximum (mBounds2d ?b))"
      "is_fin (Fin 5) \<and> dle (mZmin ?b) (Fin 5) \<and> dle (Fin 5) (mZmax ?b)"
    by (simp_all add: QgsBox3D_def dle_def)
  note inst = distanceTo_spec [where env = ?env and x = "Fin 15" and y = "Fin 15" and z = "Fin 5"
      and b = ?b and lo = "Fin 0" and c = "Fin 15" and hi = "Fin 10" and u = 5 and v = 5]
  from inst nn have g: "axis_gap (Fin 0) (Fin 10) (Fin 15) = spec_gap (Fin 0) (Fin 10) (Fin 15)"
    by blast
  from inst inside plain_hypot_values(1,2) [of False]
  have i: "distanceTo ?env (Fin 5) (Fin 5) (Fin 5) ?b = Fin 0"
    by blast
  from inst near have "distanceTo ?env (Fin 15) (Fin 5) (Fin 5) ?b
      = hypot3 ?env (Fin 5) (Fin 0) (Fin 0)"
    by blast
  then have e: "distanceTo ?env (Fin 15) (Fin 5) (Fin 5) ?b = Fin 5"
    by (simp only: plain_hypot_values)
  from i e g axis_gap_beyond show ?thesis
    by (intro conjI)
qed

text \<open>
  The claim as stated fails.  With a correctly rounded \<open>std::hypot\<close> the point
  (15,15,15) is at distance 4875289607221227 / 2^49, the double nearest to the square
  root of 75 and different from it.  And a point whose x is minus infinity, in a box whose
  lower x bound is minus infinity, lies inside the box but its distance is NaN, not 0:
  the difference of the two infinities is NaN.
\<close>

theorem distanceTo_counterexample:
  "distanceTo (plain_collab False) (Fin 15) (Fin 15) (Fin 15)
      (QgsBox3D (Fin 0) (Fin 0) (Fin 0) (Fin 10) (Fin 10) (Fin 10) False)
     = Fin (4875289607221227 / 2 ^ 49)
   \<and> Fin (4875289607221227 / 2 ^ 49) \<noteq> Fin (sqrt 75)
   \<and> distanceTo (plain_collab False) NInf (Fin 0) (Fin 0)
      (QgsBox3D NInf (Fin 0) (Fin 0) (Fin 1) (Fin 1) (Fin 1) False) = NaN"
proof -
  have near: "\<not> qgsDoubleNear (plain_collab False) (Fin 0) (Fin 10)"
    by (simp add: plain_collab_def)
  have a: "distanceTo (plain_collab False) (Fin 15) (Fin 15) (Fin 15)
      (QgsBox3D (Fin 0) (Fin 0) (Fin 0) (Fin 10) (Fin 10) (Fin 10) False)
     = Fin (4875289607221227 / 2 ^ 49)"
    using distanceTo_examples(2) [OF near] by (simp only: plain_hypot_values)
  have b: "Fin (4875289607221227 / 2 ^ 49) \<noteq> Fin (sqrt 75)"
    using not_sqrt_75 by simp
  have c: "distanceTo (plain_collab False) NInf (Fin 0) (Fin 0)
      (QgsBox3D NInf (Fin 0) (Fin 0) (Fin 1) (Fin 1) (Fin 1) False) = NaN"
    by (simp add: distanceTo_def QgsBox3D_def is2d_def plain_collab_def dgt_def dsub_def
                  std_max_def rounded_hypot3_def Let_def)
  from a b c show ?thesis
    by (intro conjI)
qed


section \<open>The debug string\<close>

lemma toString_precision_nonneg: "0 \<le> precision \<Longrightarrow> toString_precision env precision b = precision"
  by (simp add: toString_precision_def)

lemma toString_precision_capped: "precision < 0 \<Longrightarrow> toString_precision env precision b \<le> 20"
  by (simp add: toString_precision_def Let_def)

lemma adaptive_guard:
  "\<not> isnan w \<Longrightarrow> \<not> isnan h \<Longrightarrow>
   ((dlt w (Fin 10) \<or> dlt h (Fin 10)) \<and> (dgt w (Fin 0) \<and> dgt h (Fin 0)))
     = (dlt (Fin 0) (std_min w h) \<and> dlt (std_min w h) (Fin 10))"
  by (cases w; cases h) (auto simp: dgt_def std_min_def)

lemma toString_precision_adaptive:
  "precision < 0 \<Longrightarrow> \<not> isnan (width b) \<Longrightarrow> \<not> isnan (height b) \<Longrightarrow>
   toString_precision env precision b = spec_adaptive env (std_min (width b) (height b))"
  by (simp add: toString_precision_def spec_adaptive_def Let_def adaptive_guard min_def)

lemma toString_precision_nan:
  "precision < 0 \<Longrightarrow> isnan (width b) \<or> isnan (height b) \<Longrightarrow>
   toString_precision env precision b = 0"
  by (cases "width b"; cases "height b") (auto simp: toString_precision_def dgt_def)

text \<open>
  C7.  \<open>toString(precision)\<close> returns \<open>"Null"\<close> for a null box, otherwise \<open>"Empty"\<close>
  for an empty box, otherwise the text \<open>"xmin,ymin,zmin : xmax,ymax,zmax"\<close> with each
  bound rendered at the precision in use.  That is the argument when it is not negative.
  When it is negative, the precision in use is at most 20; it is the adaptive precision
  derived from the smaller of width and height, and 0 when width or height is NaN (and
  there is no smaller one).
\<close>

theorem toString_spec:
  "toString env precision b =
     (if isNull b then ''Null''
      else if isEmpty env b then ''Empty''
      else spec_render (arg_f env) (toString_precision env precision b) b)
   \<and> (0 \<le> precision \<longrightarrow> toString_precision env precision b = precision)
   \<and> (precision < 0 \<longrightarrow> toString_precision env precision b \<le> 20)
   \<and> (precision < 0 \<and> \<not> isnan (width b) \<and> \<not> isnan (height b) \<longrightarrow>
        toString_precision env precision b = spec_adaptive env (std_min (width b) (height b)))
   \<and> (precision < 0 \<and> (isnan (width b) \<or> isnan (height b)) \<longrightarrow>
        toString_precision env precision b = 0)"
  using toString_precision_nan [of precision b env]
  by (simp add: toString_def spec_render_def Let_def toString_precision_nonneg
                toString_precision_capped toString_precision_adaptive)

subsection \<open>The sample collaborator at particular values\<close>

lemma digits_half: "exact_ceil_neg_log10 (Fin (1 / 2)) = 1"
proof -
  have "- 1 \<le> log 10 (1 / 2 :: real)"
    by (subst le_log_iff) (simp_all add: powr_minus)
  moreover have "log 10 (1 / 2 :: real) < 0"
    by simp
  ultimately have "\<lceil>- log 10 (1 / 2 :: real)\<rceil> = 1"
    by (intro ceiling_unique) simp_all
  then show ?thesis
    by (simp add: exact_ceil_neg_log10_def)
qed

lemma fixed_f_samples:
  "fixed_f (Fin 0) 1 = ''0.0''" "fixed_f (Fin 10) 1 = ''10.0''"
  "fixed_f (Fin 0) 2 = ''0.00''" "fixed_f (Fin (1 / 2)) 2 = ''0.50''"
  by code_simp+

text \<open>
  The example of the specification, \<open>(0, 0, 0) .. (10, 10, 10)\<close> at precision 1; a box of
  size one half at a negative precision, which asks for two digits; a box reset by
  \<open>setMinimal()\<close>; and a box without height.
\<close>

theorem toString_spec_witness:
  "toString (plain_collab False) 1
      (QgsBox3D (Fin 0) (Fin 0) (Fin 0) (Fin 10) (Fin 10) (Fin 10) False)
     = ''0.0,0.0,0.0 : 10.0,10.0,10.0''
   \<and> toString (plain_collab False) (- 1)
      (QgsBox3D (Fin 0) (Fin 0) (Fin 0) (Fin (1 / 2)) (Fin (1 / 2)) (Fin (1 / 2)) False)
     = ''0.00,0.00,0.00 : 0.50,0.50,0.50''
   \<and> toString (plain_collab False) 3 (setMinimal (QgsBox3D NaN NaN NaN NaN NaN NaN False))
     = ''Null''
   \<and> toString (plain_collab False) 3
      (QgsBox3D (Fin 0) (Fin 0) (Fin 0) (Fin 1) (Fin 1) (Fin 0) False)
     = ''Empty''"
proof -
  let ?env = "plain_collab False"
  let ?big = "QgsBox3D (Fin 0) (Fin 0) (Fin 0) (Fin 10) (Fin 10) (Fin 10) False"
  let ?small = "QgsBox3D (Fin 0) (Fin 0) (Fin 0) (Fin (1 / 2)) (Fin (1 / 2)) (Fin (1 / 2)) False"
  let ?null = "setMinimal (QgsBox3D NaN NaN NaN NaN NaN NaN False)"
  let ?flat = "QgsBox3D (Fin 0) (Fin 0) (Fin 0) (Fin 1) (Fin 1) (Fin 0) False"
  have big: "\<not> isNull ?big" "\<not> isEmpty ?env ?big"
    using dbl_max_gt
    by (simp_all add: isNull_def isEmpty_def QgsBox3D_def plain_collab_def rect_flat_def
                      dle_def DBL_MAX_def)
  have small: "\<not> isNull ?small" "\<not> isEmpty ?env ?small"
    using dbl_max_gt
    by (simp_all add: isNull_def isEmpty_def QgsBox3D_def plain_collab_def rect_flat_def
                      dle_def DBL_MAX_def)
  have wh: "width ?small = Fin (1 / 2)" "height ?small = Fin (1 / 2)"
    using round64_half by (simp_all add: width_def height_def QgsBox3D_def dsub_def)
  have ad: "spec_adaptive ?env (Fin (1 / 2)) = 2"
    using digits_half by (simp add: spec_adaptive_def plain_collab_def)
  have null: "isNull ?null"
    by (simp add: isNull_def setMinimal_def rect_setMinimal_def)
  have flat: "\<not> isNull ?flat" "isEmpty ?env ?flat"
    using dbl_max_gt
    by (simp_all add: isNull_def isEmpty_def QgsBox3D_def plain_collab_def DBL_MAX_def)
  have f: "arg_f ?env = fixed_f"
    by (simp add: plain_collab_def)
  have "toString ?env 1 ?big = ''0.0,0.0,0.0 : 10.0,10.0,10.0''"
    using toString_spec [of ?env 1 ?big] big
    by (simp add: f spec_render_def fixed_f_samples) (simp add: QgsBox3D_def fixed_f_samples)
  moreover have "toString ?env (- 1) ?small = ''0.00,0.00,0.00 : 0.50,0.50,0.50''"
    using toString_spec [of ?env "- 1" ?small] small
    by (simp add: wh ad f spec_render_def) (simp add: QgsBox3D_def fixed_f_samples)
  moreover have "toString ?env 3 ?null = ''Null''"
    using toString_spec [of ?env 3 ?null] null by simp
  moreover have "toString ?env 3 ?flat = ''Empty''"
    using toString_spec [of ?env 3 ?flat] flat by simp
  ultimately show ?thesis
    by simp
qed

end
